theory Spec2Isabelle
  imports Main "HOL-Library.Word"
begin

unbundle bit_operations_syntax

section \<open>Data model of main\_windows.cpp\<close>

text \<open>
  Machine types of the source. Host pointers (\<open>uint8 *\<close>, \<open>uintptr\<close>, \<open>size_t\<close>) are
  those of the 64-bit Windows build; \<open>NULL\<close> is the pointer 0. An \<open>int64\<close> is a 64-bit
  word read in two's complement (\<open>sint\<close>).
\<close>

type_synonym uint8 = "8 word"
type_synonym uint16 = "16 word"
type_synonym uint32 = "32 word"
type_synonym uint64 = "64 word"
type_synonym int64 = "64 word"
type_synonym uintptr = "64 word"

text \<open>The two SDL worker threads of the file (\<open>tick_thread\<close>, \<open>xpram_thread\<close>).\<close>

datatype worker = TickThread | XpramThread

text \<open>The string identifiers (user\_strings.h) that this file passes to the alert functions.\<close>

datatype str_id =
    STR_SMALL_RAM_WARN
  | STR_NO_MEM_ERR
  | STR_NO_ROM_FILE_ERR
  | STR_ROM_SIZE_ERR
  | STR_ROM_FILE_READ_ERR

datatype sigsegv_return_t =
    SIGSEGV_RETURN_SUCCESS
  | SIGSEGV_RETURN_FAILURE
  | SIGSEGV_RETURN_SKIP_INSTRUCTION

text \<open>
  The observable actions of the file, in program order: calls into collaborators that
  are not part of this file (SDL, the VM allocator, the CPU core, the Win32 API), and
  the stores to the two \<open>volatile\<close> cancellation flags.
\<close>

datatype event =
    EvLockMutex "nat option"
  | EvUnlockMutex "nat option"
  | EvWriteMacInt32 uint32 uint32
  | EvTriggerInterrupt
  | EvDelay_usec uint32
  | EvExit680x0
  | EvCancel worker
  | EvWaitThread worker
  | EvExitAll
  | EvVmAcquire uint64
  | EvVmRelease uintptr uint64
  | EvVmExit
  | EvSysExit
  | EvPrefsExit
  | EvExit int
  | EvWarningAlert str_id
  | EvErrorAlert str_id
  | EvCloseHandle
  | EvReadFile uintptr uint32

text \<open>
  Constants and build switches that the file uses and that are declared in headers
  outside it; they are parameters of the model.
\<close>

record config =
  ENABLE_VOSF :: bool
  HAVE_SIGSEGV_SKIP_INSTRUCTION :: bool
  USE_SCRATCHMEM_SUBTERFUGE :: bool
  VM_MAP_FAILED :: uintptr
  INTFLAG_60HZ :: uint32
  INTFLAG_1HZ :: uint32
  ROM_VERSION_CLASSIC :: uint16

text \<open>
  The global and function-static variables of the file. \<open>intflag_lock\<close> is the
  \<open>SDL_mutex *\<close> (\<open>None\<close> is \<open>NULL\<close>); \<open>tick_counter\<close> is the static local of
  \<open>one_tick\<close>, which stays within 0..60, so the C \<open>int\<close> never overflows;
  \<open>host_mem\<close> is the host memory that \<open>ReadFile\<close> copies the ROM image into.
  \<open>tick_thread_running\<close> and \<open>xpram_thread_running\<close> are not variables of the file:
  they record whether the worker's thread function can still execute, which
  \<open>SDL_WaitThread\<close> ends.
\<close>

record emu =
  RAMBaseHost :: uintptr
  ROMBaseHost :: uintptr
  RAMSize :: uint32
  ROMSize :: uint32
  ScratchMem :: uintptr
  InterruptFlags :: uint32
  intflag_lock :: "nat option"
  tick_thread_active :: bool
  tick_thread_cancel :: bool
  tick_thread_running :: bool
  xpram_thread_active :: bool
  xpram_thread_cancel :: bool
  xpram_thread_running :: bool
  tick_counter :: int
  host_mem :: "uintptr \<Rightarrow> uint8"
  trace :: "event list"

definition log_event :: "event \<Rightarrow> emu \<Rightarrow> emu" where
  "log_event ev s = s\<lparr>trace := trace s @ [ev]\<rparr>"

definition SCRATCH_MEM_SIZE :: uint64 where
  "SCRATCH_MEM_SIZE = 0x10000"

text \<open>The static initialisers of the file (lines 81--102 and 688).\<close>

definition initial_emu :: emu where
  "initial_emu = \<lparr>
     RAMBaseHost = 0, ROMBaseHost = 0, RAMSize = 0, ROMSize = 0, ScratchMem = 0,
     InterruptFlags = 0, intflag_lock = None,
     tick_thread_active = False, tick_thread_cancel = False, tick_thread_running = False,
     xpram_thread_active = False, xpram_thread_cancel = False, xpram_thread_running = False,
     tick_counter = 0, host_mem = (\<lambda>_. 0), trace = [] \<rparr>"


section \<open>Interrupt flags\<close>

text \<open>
  \<open>LOCK_INTFLAGS\<close> and \<open>UNLOCK_INTFLAGS\<close> expand to \<open>SDL_LockMutex(intflag_lock)\<close> and
  \<open>SDL_UnlockMutex(intflag_lock)\<close>.
\<close>

definition LOCK_INTFLAGS :: "emu \<Rightarrow> emu" where
  "LOCK_INTFLAGS s = log_event (EvLockMutex (intflag_lock s)) s"

definition UNLOCK_INTFLAGS :: "emu \<Rightarrow> emu" where
  "UNLOCK_INTFLAGS s = log_event (EvUnlockMutex (intflag_lock s)) s"

definition SetInterruptFlag :: "uint32 \<Rightarrow> emu \<Rightarrow> emu" where
  "SetInterruptFlag flag s =
     (let s1 = LOCK_INTFLAGS s;
          s2 = s1\<lparr>InterruptFlags := InterruptFlags s1 OR flag\<rparr>
      in UNLOCK_INTFLAGS s2)"

definition ClearInterruptFlag :: "uint32 \<Rightarrow> emu \<Rightarrow> emu" where
  "ClearInterruptFlag flag s =
     (let s1 = LOCK_INTFLAGS s;
          s2 = s1\<lparr>InterruptFlags := InterruptFlags s1 AND NOT flag\<rparr>
      in UNLOCK_INTFLAGS s2)"


section \<open>The 60Hz thread\<close>

text \<open>
  What the collaborators return during one call of \<open>one_tick\<close>: \<open>TimerDateTime()\<close>,
  the global \<open>ROMVersion\<close> and \<open>HasMacStarted()\<close>.
\<close>

record tick_env =
  TimerDateTime :: uint32
  ROMVersion :: uint16
  HasMacStarted :: bool

definition one_second :: "config \<Rightarrow> tick_env \<Rightarrow> emu \<Rightarrow> emu" where
  "one_second cfg e s =
     (let s1 = log_event (EvWriteMacInt32 0x20c (TimerDateTime e)) s;
          s2 = SetInterruptFlag (INTFLAG_1HZ cfg) s1
      in log_event EvTriggerInterrupt s2)"

text \<open>The first statement of \<open>one_tick\<close>: \<open>if (++tick_counter > 60) { ... }\<close>.\<close>

definition tick_count :: "config \<Rightarrow> tick_env \<Rightarrow> emu \<Rightarrow> emu" where
  "tick_count cfg e s =
     (let s1 = s\<lparr>tick_counter := tick_counter s + 1\<rparr>
      in if tick_counter s1 > 60
         then one_second cfg e (s1\<lparr>tick_counter := 0\<rparr>)
         else s1)"

definition one_tick :: "config \<Rightarrow> tick_env \<Rightarrow> emu \<Rightarrow> emu" where
  "one_tick cfg e s =
     (let s1 = tick_count cfg e s
      in if ROMVersion e \<noteq> ROM_VERSION_CLASSIC cfg \<or> HasMacStarted e
         then log_event EvTriggerInterrupt (SetInterruptFlag (INTFLAG_60HZ cfg) s1)
         else s1)"

text \<open>Consecutive calls of \<open>one_tick\<close>, one per element of the list.\<close>

fun run_ticks :: "config \<Rightarrow> tick_env list \<Rightarrow> emu \<Rightarrow> emu" where
  "run_ticks cfg [] s = s"
| "run_ticks cfg (e # es) s = run_ticks cfg es (one_tick cfg e s)"

text \<open>The number of times the one-second action has written the clock to 0x20c.\<close>

definition is_clock_write :: "event \<Rightarrow> bool" where
  "is_clock_write ev = (case ev of EvWriteMacInt32 a v \<Rightarrow> a = 0x20c | _ \<Rightarrow> False)"

definition seconds_fired :: "emu \<Rightarrow> nat" where
  "seconds_fired s = length (filter is_clock_write (trace s))"

text \<open>
  The locals of \<open>tick_func\<close> (\<open>nxt\<close> is the variable \<open>next\<close>), and what one iteration
  of its loop reads: the collaborators' answers for \<open>one_tick\<close>, the value of the
  \<open>GetTicks_usec()\<close> call that computes \<open>delay\<close>, and the value of the second
  \<open>GetTicks_usec()\<close> call, made only on resynchronisation.
\<close>

record tick_locals =
  start :: uint64
  ticks :: int64
  nxt :: uint64

record tick_input =
  tenv :: tick_env
  now :: uint64
  now_resync :: uint64

definition tick_body :: "config \<Rightarrow> tick_input \<Rightarrow> emu \<times> tick_locals \<Rightarrow> emu \<times> tick_locals" where
  "tick_body cfg i sl =
     (let s1 = one_tick cfg (tenv i) (fst sl);
          l1 = (snd sl)\<lparr>nxt := nxt (snd sl) + 16625\<rparr>;
          delay = (nxt l1 - now i :: int64)
      in if sint delay > 0
         then (log_event (EvDelay_usec (ucast delay)) s1, l1\<lparr>ticks := ticks l1 + 1\<rparr>)
         else if sint delay < - 16625
         then (s1, l1\<lparr>nxt := now_resync i, ticks := ticks l1 + 1\<rparr>)
         else (s1, l1\<lparr>ticks := ticks l1 + 1\<rparr>))"

text \<open>
  The loop of \<open>tick_func\<close>: one iteration per list element, that is, the worker reads
  \<open>tick_thread_cancel\<close> as false once per element and as true afterwards.
\<close>

fun tick_loop :: "config \<Rightarrow> tick_input list \<Rightarrow> emu \<times> tick_locals \<Rightarrow> emu \<times> tick_locals" where
  "tick_loop cfg [] sl = sl"
| "tick_loop cfg (i # is) sl = tick_loop cfg is (tick_body cfg i sl)"

definition tick_func :: "config \<Rightarrow> uint64 \<Rightarrow> uint64 \<Rightarrow> tick_input list \<Rightarrow> emu \<Rightarrow> emu \<times> tick_locals" where
  "tick_func cfg start_read next_read is s =
     tick_loop cfg is (s, \<lparr>start = start_read, ticks = 0, nxt = next_read\<rparr>)"


section \<open>Memory regions\<close>

text \<open>
  The address test of the file for a region of \<open>sz\<close> bytes at \<open>base\<close> (line 155): one
  unsigned comparison of the offset.
\<close>

definition in_region :: "uintptr \<Rightarrow> uint64 \<Rightarrow> uintptr \<Rightarrow> bool" where
  "in_region base sz a = (a - base < sz)"

text \<open>
  A host mapping of \<open>sz\<close> bytes at \<open>base\<close>: it is not empty and it lies inside the
  64-bit address space.
\<close>

definition valid_mapping :: "uintptr \<Rightarrow> uint64 \<Rightarrow> bool" where
  "valid_mapping base sz = (0 < sz \<and> unat base + unat sz \<le> 2 ^ 64)"


section \<open>SIGSEGV handler\<close>

text \<open>
  \<open>sigsegv_info_t\<close>: the fault address and the address of the faulting instruction.
\<close>

record sigsegv_info_t =
  fault_address :: uintptr
  fault_instruction :: uintptr

text \<open>
  \<open>Screen_fault_handler\<close> (video collaborator) and \<open>PrefsFindBool\<close> (preferences) are
  functions outside the file; the handler receives them as parameters. The
  comparison of the ROM test is unsigned, at pointer width, with the \<open>uint32\<close>
  \<open>ROMSize\<close> converted to it.
\<close>

definition sigsegv_handler ::
  "config \<Rightarrow> (sigsegv_info_t \<Rightarrow> bool) \<Rightarrow> (string \<Rightarrow> bool) \<Rightarrow> emu \<Rightarrow> sigsegv_info_t
     \<Rightarrow> sigsegv_return_t" where
  "sigsegv_handler cfg Screen_fault_handler PrefsFindBool s sip =
     (if ENABLE_VOSF cfg \<and> Screen_fault_handler sip then SIGSEGV_RETURN_SUCCESS
      else if HAVE_SIGSEGV_SKIP_INSTRUCTION cfg
              \<and> in_region (ROMBaseHost s) (ucast (ROMSize s)) (fault_address sip)
           then SIGSEGV_RETURN_SKIP_INSTRUCTION
      else if HAVE_SIGSEGV_SKIP_INSTRUCTION cfg \<and> PrefsFindBool ''ignoresegv''
           then SIGSEGV_RETURN_SKIP_INSTRUCTION
      else SIGSEGV_RETURN_FAILURE)"

text \<open>
  The classification as the specification words it (section 4.2), to be compared with
  \<open>sigsegv_handler\<close>: four dispositions, decided in a fixed order, the first match
  winning. The ROM region is the \<open>rom_size\<close> bytes from \<open>rom_base\<close>.
\<close>

datatype disposition = DelegatedToVideo | BenignRomWrite | IgnoredByConfig | Unrecoverable

definition spec_fault_disposition ::
  "bool \<Rightarrow> uintptr \<Rightarrow> uint32 \<Rightarrow> bool \<Rightarrow> uintptr \<Rightarrow> disposition" where
  "spec_fault_disposition in_screen rom_base rom_size ignore_faults a =
     (if in_screen then DelegatedToVideo
      else if unat rom_base \<le> unat a \<and> unat a < unat rom_base + unat rom_size
           then BenignRomWrite
      else if ignore_faults then IgnoredByConfig
      else Unrecoverable)"

text \<open>
  What each disposition hands back to the trap dispatcher: resume, skip the faulting
  instruction, or failure.
\<close>

fun disposition_return :: "disposition \<Rightarrow> sigsegv_return_t" where
  "disposition_return DelegatedToVideo = SIGSEGV_RETURN_SUCCESS"
| "disposition_return BenignRomWrite = SIGSEGV_RETURN_SKIP_INSTRUCTION"
| "disposition_return IgnoredByConfig = SIGSEGV_RETURN_SKIP_INSTRUCTION"
| "disposition_return Unrecoverable = SIGSEGV_RETURN_FAILURE"


section \<open>Quit emulator\<close>

text \<open>
  \<open>SDL_WaitThread\<close> returns when the thread function has returned; from then on the
  worker executes nothing.
\<close>

definition SDL_WaitThread :: "worker \<Rightarrow> emu \<Rightarrow> emu" where
  "SDL_WaitThread w s =
     log_event (EvWaitThread w)
       (case w of
          TickThread \<Rightarrow> s\<lparr>tick_thread_running := False\<rparr>
        | XpramThread \<Rightarrow> s\<lparr>xpram_thread_running := False\<rparr>)"

text \<open>\<open>// Stop 60Hz thread\<close>\<close>

definition quit_stop_tick :: "emu \<Rightarrow> emu" where
  "quit_stop_tick s =
     (if tick_thread_active s
      then SDL_WaitThread TickThread (log_event (EvCancel TickThread) (s\<lparr>tick_thread_cancel := True\<rparr>))
      else s)"

text \<open>\<open>// Stop XPRAM watchdog thread\<close>\<close>

definition quit_stop_xpram :: "emu \<Rightarrow> emu" where
  "quit_stop_xpram s =
     (if xpram_thread_active s
      then SDL_WaitThread XpramThread (log_event (EvCancel XpramThread) (s\<lparr>xpram_thread_cancel := True\<rparr>))
      else s)"

text \<open>\<open>// Free ROM/RAM areas\<close>\<close>

definition quit_free_ram :: "config \<Rightarrow> emu \<Rightarrow> emu" where
  "quit_free_ram cfg s =
     (if RAMBaseHost s \<noteq> VM_MAP_FAILED cfg
      then (log_event (EvVmRelease (RAMBaseHost s) (ucast (RAMSize s))) s)\<lparr>RAMBaseHost := 0\<rparr>
      else s)"

definition quit_free_rom :: "config \<Rightarrow> emu \<Rightarrow> emu" where
  "quit_free_rom cfg s =
     (if ROMBaseHost s \<noteq> VM_MAP_FAILED cfg
      then (log_event (EvVmRelease (ROMBaseHost s) 0x100000) s)\<lparr>ROMBaseHost := 0\<rparr>
      else s)"

text \<open>\<open>// Delete scratch memory area\<close>, compiled under \<open>USE_SCRATCHMEM_SUBTERFUGE\<close>.\<close>

definition quit_delete_scratch :: "config \<Rightarrow> emu \<Rightarrow> emu" where
  "quit_delete_scratch cfg s =
     (if USE_SCRATCHMEM_SUBTERFUGE cfg \<and> ScratchMem s \<noteq> VM_MAP_FAILED cfg
      then (log_event (EvVmRelease (ScratchMem s - SCRATCH_MEM_SIZE div 2) SCRATCH_MEM_SIZE) s)
             \<lparr>ScratchMem := 0\<rparr>
      else s)"

text \<open>The three release blocks of \<open>QuitEmulator\<close> (lines 606--622), in order.\<close>

definition quit_release :: "config \<Rightarrow> emu \<Rightarrow> emu" where
  "quit_release cfg s = quit_delete_scratch cfg (quit_free_rom cfg (quit_free_ram cfg s))"

text \<open>
  The part of \<open>QuitEmulator\<close> that precedes the release blocks (lines 586--604):
  \<open>Exit680x0()\<close>, stopping the two threads, \<open>ExitAll()\<close>.
\<close>

definition quit_before_release :: "emu \<Rightarrow> emu" where
  "quit_before_release s =
     log_event EvExitAll (quit_stop_xpram (quit_stop_tick (log_event EvExit680x0 s)))"

text \<open>
  \<open>QuitEmulator\<close> ends in \<open>exit(0)\<close> and does not return to its caller: its value is the
  state in which the process exits.
\<close>

definition QuitEmulator :: "config \<Rightarrow> emu \<Rightarrow> emu" where
  "QuitEmulator cfg s =
     (let s1 = log_event EvExit680x0 s;
          s2 = quit_stop_tick s1;
          s3 = quit_stop_xpram s2;
          s4 = log_event EvExitAll s3;
          s5 = quit_release cfg s4;
          s6 = log_event EvVmExit s5;
          s7 = log_event EvSysExit s6;
          s8 = log_event EvPrefsExit s7
      in log_event (EvExit 0) s8)"


section \<open>Startup: the memory and ROM steps of run\<close>

text \<open>
  Each step returns \<open>Inr\<close> of the state in which \<open>run\<close> continues, or \<open>Inl (id, s)\<close> when
  it calls \<open>ErrorAlert(id)\<close> and then \<open>QuitEmulator()\<close>, which exits the process in
  state \<open>s\<close>.
\<close>

type_synonym step_result = "(str_id \<times> emu) + emu"

definition fatal :: "config \<Rightarrow> str_id \<Rightarrow> emu \<Rightarrow> step_result" where
  "fatal cfg msg s = Inl (msg, QuitEmulator cfg s)"

text \<open>\<open>// Initialize variables\<close> (lines 375--377).\<close>

definition init_variables :: "emu \<Rightarrow> emu" where
  "init_variables s = s\<lparr>RAMBaseHost := 0, ROMBaseHost := 0\<rparr>"

text \<open>
  \<open>// Read RAM size\<close> (lines 475--484). The argument is what
  \<open>PrefsFindInt32("ramsize")\<close> returns, stored into the \<open>uint32\<close> \<open>RAMSize\<close>.
\<close>

definition read_ram_size :: "uint32 \<Rightarrow> emu \<Rightarrow> emu" where
  "read_ram_size ramsize s =
     (let r0 = ramsize;
          r1 = (if r0 \<le> 1000 then r0 * (1024 * 1024) else r0);
          r2 = r1 AND 0xfff00000
      in if r2 < 1024 * 1024
         then (log_event (EvWarningAlert STR_SMALL_RAM_WARN) s)\<lparr>RAMSize := 1024 * 1024\<rparr>
         else s\<lparr>RAMSize := r2\<rparr>)"

text \<open>
  \<open>// Create areas for Mac RAM and ROM\<close> (lines 489--496). \<open>vm_acquire\<close> is the
  allocator outside the file: it maps a requested size to the base of the new
  mapping or to \<open>VM_MAP_FAILED\<close>. The sum \<open>RAMSize + 0x100000\<close> is computed in \<open>uint32\<close>
  and then widened to \<open>size_t\<close>.
\<close>

definition areas_size :: "emu \<Rightarrow> uint64" where
  "areas_size s = ucast (RAMSize s + 0x100000)"

definition create_areas :: "config \<Rightarrow> (uint64 \<Rightarrow> uintptr) \<Rightarrow> emu \<Rightarrow> step_result" where
  "create_areas cfg vm_acquire s =
     (let sz = areas_size s;
          s1 = log_event (EvVmAcquire sz) s;
          ram_rom_area = vm_acquire sz
      in if ram_rom_area = VM_MAP_FAILED cfg
         then fatal cfg STR_NO_MEM_ERR (log_event (EvErrorAlert STR_NO_MEM_ERR) s1)
         else Inr (s1\<lparr>RAMBaseHost := ram_rom_area,
                       ROMBaseHost := ram_rom_area + ucast (RAMSize s1)\<rparr>))"

text \<open>\<open>// Allocate scratch memory\<close> (lines 498--506).\<close>

definition allocate_scratch :: "config \<Rightarrow> (uint64 \<Rightarrow> uintptr) \<Rightarrow> emu \<Rightarrow> step_result" where
  "allocate_scratch cfg vm_acquire s =
     (if USE_SCRATCHMEM_SUBTERFUGE cfg
      then (let s1 = (log_event (EvVmAcquire SCRATCH_MEM_SIZE) s)
                       \<lparr>ScratchMem := vm_acquire SCRATCH_MEM_SIZE\<rparr>
            in if ScratchMem s1 = VM_MAP_FAILED cfg
               then fatal cfg STR_NO_MEM_ERR (log_event (EvErrorAlert STR_NO_MEM_ERR) s1)
               else Inr (s1\<lparr>ScratchMem := ScratchMem s1 + SCRATCH_MEM_SIZE div 2\<rparr>))
      else Inr s)"

text \<open>
  The ROM file as the Win32 calls present it: \<open>GetFileSize\<close> returns \<open>file_size\<close>;
  \<open>ReadFile\<close> returns \<open>read_ok\<close> and delivers \<open>read_data\<close>, of which at most the requested
  number of bytes is stored at the buffer and counted in \<open>bytes_read\<close>.
\<close>

record rom_file =
  file_size :: uint32
  read_ok :: bool
  read_data :: "uint8 list"

definition store_bytes :: "uintptr \<Rightarrow> uint8 list \<Rightarrow> (uintptr \<Rightarrow> uint8) \<Rightarrow> (uintptr \<Rightarrow> uint8)" where
  "store_bytes base bs mem =
     (\<lambda>a. if unat (a - base) < length bs then bs ! unat (a - base) else mem a)"

text \<open>
  \<open>// Load Mac ROM\<close> (lines 520--544). The argument is \<open>None\<close> when \<open>CreateFile\<close> returns
  \<open>INVALID_HANDLE_VALUE\<close>.
\<close>

definition load_rom :: "config \<Rightarrow> rom_file option \<Rightarrow> emu \<Rightarrow> step_result" where
  "load_rom cfg rom_fh s =
     (case rom_fh of
        None \<Rightarrow> fatal cfg STR_NO_ROM_FILE_ERR (log_event (EvErrorAlert STR_NO_ROM_FILE_ERR) s)
      | Some f \<Rightarrow>
          (let s1 = s\<lparr>ROMSize := file_size f\<rparr>
           in if ROMSize s1 \<noteq> 64 * 1024 \<and> ROMSize s1 \<noteq> 128 * 1024 \<and> ROMSize s1 \<noteq> 256 * 1024
                 \<and> ROMSize s1 \<noteq> 512 * 1024 \<and> ROMSize s1 \<noteq> 1024 * 1024
              then fatal cfg STR_ROM_SIZE_ERR
                     (log_event EvCloseHandle (log_event (EvErrorAlert STR_ROM_SIZE_ERR) s1))
              else
                (let delivered = take (unat (ROMSize s1)) (read_data f);
                     bytes_read = (of_nat (length delivered) :: uint32);
                     s2 = (log_event (EvReadFile (ROMBaseHost s1) (ROMSize s1)) s1)
                            \<lparr>host_mem := store_bytes (ROMBaseHost s1) delivered (host_mem s1)\<rparr>
                 in if \<not> read_ok f \<or> bytes_read \<noteq> ROMSize s2
                    then fatal cfg STR_ROM_FILE_READ_ERR
                           (log_event EvCloseHandle (log_event (EvErrorAlert STR_ROM_FILE_READ_ERR) s2))
                    else Inr s2)))"


section \<open>Example inputs\<close>

text \<open>
  A build with every switch on, \<open>VM_MAP_FAILED\<close> as \<open>(void *)-1\<close>, the flag bits 1 (60Hz)
  and 2 (1Hz), and 0x0276 as the version of a Classic ROM.
\<close>

definition windows_config :: config where
  "windows_config = \<lparr>
     ENABLE_VOSF = True, HAVE_SIGSEGV_SKIP_INSTRUCTION = True,
     USE_SCRATCHMEM_SUBTERFUGE = True, VM_MAP_FAILED = - 1,
     INTFLAG_60HZ = 1, INTFLAG_1HZ = 2, ROM_VERSION_CLASSIC = 0x0276 \<rparr>"

text \<open>A 32-bit clean ROM (version 0x067c) whose guest has not started yet.\<close>

definition rom32_not_started :: tick_env where
  "rom32_not_started = \<lparr> TimerDateTime = 0, ROMVersion = 0x067c, HasMacStarted = False \<rparr>"

text \<open>A Classic ROM, before and after the guest has started.\<close>

definition classic_not_started :: tick_env where
  "classic_not_started = \<lparr> TimerDateTime = 0, ROMVersion = 0x0276, HasMacStarted = False \<rparr>"

definition classic_started :: tick_env where
  "classic_started = \<lparr> TimerDateTime = 0, ROMVersion = 0x0276, HasMacStarted = True \<rparr>"

text \<open>
  A state of the running emulator: 8 MiB of RAM at 0x10000000, a 128 KiB ROM image,
  scratch memory, both worker threads started.
\<close>

definition running_emu :: emu where
  "running_emu = initial_emu \<lparr>
     RAMBaseHost := 0x10000000, ROMBaseHost := 0x10800000, RAMSize := 0x800000,
     ROMSize := 0x20000, ScratchMem := 0x20008000,
     tick_thread_active := True, tick_thread_running := True,
     xpram_thread_active := True, xpram_thread_running := True \<rparr>"

text \<open>
  Faults of the running emulator: at a screen address (the video collaborator of the
  example owns the 4 MiB from 0x30000000), inside the ROM image, and elsewhere.
\<close>

definition example_screen :: "sigsegv_info_t \<Rightarrow> bool" where
  "example_screen sip = (fault_address sip - 0x30000000 < 0x400000)"

definition screen_fault :: sigsegv_info_t where
  "screen_fault = \<lparr> fault_address = 0x30000100, fault_instruction = 0x401000 \<rparr>"

definition rom_fault :: sigsegv_info_t where
  "rom_fault = \<lparr> fault_address = 0x10800010, fault_instruction = 0x401000 \<rparr>"

definition other_fault :: sigsegv_info_t where
  "other_fault = \<lparr> fault_address = 0x50000000, fault_instruction = 0x401000 \<rparr>"

text \<open>
  A fault inside the 1 MiB ROM area of the running emulator (0x10800000 to 0x10900000)
  but past the end of its 128 KiB ROM image, and preferences in which \<open>ignoresegv\<close> is
  not set.
\<close>

definition beyond_image_fault :: sigsegv_info_t where
  "beyond_image_fault = \<lparr> fault_address = 0x10820000, fault_instruction = 0x401000 \<rparr>"

definition prefs_ignoresegv_off :: "string \<Rightarrow> bool" where
  "prefs_ignoresegv_off k = False"

text \<open>
  Two iterations of the tick loop. The deadline is 1000000; the first iteration reads
  the clock at 1166255, ten periods late, and 1166260 when it resynchronises; the
  second reads 1166300.
\<close>

definition late_locals :: tick_locals where
  "late_locals = \<lparr> start = 0, ticks = 0, nxt = 1000000 \<rparr>"

definition stalled_input :: tick_input where
  "stalled_input = \<lparr> tenv = classic_started, now = 1166255, now_resync = 1166260 \<rparr>"

definition following_input :: tick_input where
  "following_input = \<lparr> tenv = classic_started, now = 1166300, now_resync = 1166300 \<rparr>"

text \<open>An iteration on schedule: the clock reads 1000100 against the deadline 1016625.\<close>

definition on_time_input :: tick_input where
  "on_time_input = \<lparr> tenv = classic_started, now = 1000100, now_resync = 1000100 \<rparr>"

text \<open>
  An iteration whose deadline lies more than \<open>2 ^ 32\<close> microseconds after the clock
  reading: the deadline before the advance is \<open>2 ^ 32 + 5 - 16625\<close>, the clock reads 0.
\<close>

definition far_locals :: tick_locals where
  "far_locals = \<lparr> start = 0, ticks = 0, nxt = 4294950676 \<rparr>"

definition zero_clock_input :: tick_input where
  "zero_clock_input = \<lparr> tenv = classic_started, now = 0, now_resync = 0 \<rparr>"

text \<open>A ROM file of 100 KiB, and a ROM file of 64 KiB of which the read delivers one byte.\<close>

definition rom_100k :: rom_file where
  "rom_100k = \<lparr> file_size = 102400, read_ok = True, read_data = [] \<rparr>"

definition rom_64k_short :: rom_file where
  "rom_64k_short = \<lparr> file_size = 65536, read_ok = True, read_data = [0] \<rparr>"


section \<open>Interrupt flags and the tick action: basic facts\<close>

lemma SetInterruptFlag_flags: "InterruptFlags (SetInterruptFlag f s) = InterruptFlags s OR f"
  by (simp add: SetInterruptFlag_def LOCK_INTFLAGS_def UNLOCK_INTFLAGS_def log_event_def Let_def)

lemma SetInterruptFlag_trace:
  "trace (SetInterruptFlag f s) = trace s @ [EvLockMutex (intflag_lock s), EvUnlockMutex (intflag_lock s)]"
  by (simp add: SetInterruptFlag_def LOCK_INTFLAGS_def UNLOCK_INTFLAGS_def log_event_def Let_def)

lemma SetInterruptFlag_counter: "tick_counter (SetInterruptFlag f s) = tick_counter s"
  by (simp add: SetInterruptFlag_def LOCK_INTFLAGS_def UNLOCK_INTFLAGS_def log_event_def Let_def)

lemma tick_count_counter:
  "tick_counter (tick_count cfg e s) = (if tick_counter s \<ge> 60 then 0 else tick_counter s + 1)"
  by (simp add: tick_count_def one_second_def Let_def SetInterruptFlag_counter log_event_def)

lemma is_clock_write_simps:
  "is_clock_write (EvWriteMacInt32 a v) = (a = 0x20c)"
  "is_clock_write (EvLockMutex m) = False"
  "is_clock_write (EvUnlockMutex m) = False"
  "is_clock_write EvTriggerInterrupt = False"
  by (simp_all add: is_clock_write_def)

lemma tick_count_fired:
  "seconds_fired (tick_count cfg e s) = seconds_fired s + (if tick_counter s \<ge> 60 then 1 else 0)"
  by (simp add: tick_count_def one_second_def Let_def seconds_fired_def SetInterruptFlag_trace log_event_def is_clock_write_simps)

lemma one_tick_counter:
  "tick_counter (one_tick cfg e s) = (if tick_counter s \<ge> 60 then 0 else tick_counter s + 1)"
  by (simp add: one_tick_def Let_def SetInterruptFlag_counter log_event_def tick_count_counter)

lemma one_tick_fired:
  "seconds_fired (one_tick cfg e s) = seconds_fired s + (if tick_counter s \<ge> 60 then 1 else 0)"
  by (simp add: one_tick_def Let_def seconds_fired_def SetInterruptFlag_trace log_event_def is_clock_write_simps
      tick_count_fired [unfolded seconds_fired_def])

lemma run_ticks_count:
  "0 \<le> tick_counter s \<Longrightarrow> tick_counter s \<le> 60 \<Longrightarrow>
     tick_counter (run_ticks cfg es s) = (tick_counter s + int (length es)) mod 61
   \<and> seconds_fired (run_ticks cfg es s) = seconds_fired s + nat ((tick_counter s + int (length es)) div 61)"
proof (induction es arbitrary: s)
  case Nil
  then show ?case by simp
next
  case (Cons e es)
  show ?case
  proof (cases "tick_counter s = 60")
    case True
    have c: "tick_counter (one_tick cfg e s) = 0" using True by (simp add: one_tick_counter)
    have f: "seconds_fired (one_tick cfg e s) = seconds_fired s + 1" using True by (simp add: one_tick_fired)
    have "(60 + (1 + int (length es))) = 61 + int (length es)" by simp
    then have m: "(60 + (1 + int (length es))) mod 61 = int (length es) mod 61"
      and d: "(60 + (1 + int (length es))) div 61 = 1 + int (length es) div 61"
      by simp_all
    from Cons.IH [of "one_tick cfg e s"] c f True m d show ?thesis
      by (simp add: nat_add_distrib)
  next
    case False
    with Cons.prems have lt: "tick_counter s < 60" by simp
    have c: "tick_counter (one_tick cfg e s) = tick_counter s + 1" using lt by (simp add: one_tick_counter)
    have f: "seconds_fired (one_tick cfg e s) = seconds_fired s" using lt by (simp add: one_tick_fired)
    have e: "tick_counter s + 1 + int (length es) = tick_counter s + int (length (e # es))" by simp
    from Cons.IH [of "one_tick cfg e s"] c f lt Cons.prems show ?thesis
      unfolding run_ticks.simps c f e by simp
  qed
qed

lemma ClearInterruptFlag_flags: "InterruptFlags (ClearInterruptFlag f s) = InterruptFlags s AND NOT f"
  by (simp add: ClearInterruptFlag_def LOCK_INTFLAGS_def UNLOCK_INTFLAGS_def log_event_def Let_def)

lemma ClearInterruptFlag_trace:
  "trace (ClearInterruptFlag f s) = trace s @ [EvLockMutex (intflag_lock s), EvUnlockMutex (intflag_lock s)]"
  by (simp add: ClearInterruptFlag_def LOCK_INTFLAGS_def UNLOCK_INTFLAGS_def log_event_def Let_def)

lemma SetInterruptFlag_lock: "intflag_lock (SetInterruptFlag f s) = intflag_lock s"
  by (simp add: SetInterruptFlag_def LOCK_INTFLAGS_def UNLOCK_INTFLAGS_def log_event_def Let_def)

lemma ClearInterruptFlag_lock: "intflag_lock (ClearInterruptFlag f s) = intflag_lock s"
  by (simp add: ClearInterruptFlag_def LOCK_INTFLAGS_def UNLOCK_INTFLAGS_def log_event_def Let_def)

lemma tick_count_flags:
  "InterruptFlags (tick_count cfg e s) =
     (if 60 \<le> tick_counter s then InterruptFlags s OR INTFLAG_1HZ cfg else InterruptFlags s)"
  by (simp add: tick_count_def one_second_def Let_def SetInterruptFlag_flags log_event_def)

lemma tick_count_trace:
  "trace (tick_count cfg e s) =
     trace s @ (if 60 \<le> tick_counter s
                then [EvWriteMacInt32 0x20c (TimerDateTime e), EvLockMutex (intflag_lock s),
                      EvUnlockMutex (intflag_lock s), EvTriggerInterrupt]
                else [])"
  by (simp add: tick_count_def one_second_def Let_def SetInterruptFlag_trace log_event_def)

lemma tick_count_lock: "intflag_lock (tick_count cfg e s) = intflag_lock s"
  by (simp add: tick_count_def one_second_def Let_def SetInterruptFlag_lock log_event_def)

lemma one_tick_lock: "intflag_lock (one_tick cfg e s) = intflag_lock s"
  by (simp add: one_tick_def Let_def SetInterruptFlag_lock log_event_def tick_count_lock)


section \<open>The one-second action\<close>

lemma one_second_effect:
  "trace (one_second cfg e s) =
     trace s @ [EvWriteMacInt32 0x20c (TimerDateTime e), EvLockMutex (intflag_lock s),
                EvUnlockMutex (intflag_lock s), EvTriggerInterrupt]
   \<and> InterruptFlags (one_second cfg e s) = InterruptFlags s OR INTFLAG_1HZ cfg"
  by (simp add: one_second_def Let_def SetInterruptFlag_trace SetInterruptFlag_flags log_event_def)

text \<open>
  C2. Every call of \<open>one_tick\<close> increments the tick counter, and the one-second action
  (clock written to 0x20c, 1Hz flag raised, CPU core notified) is to run on every 60th
  tick. The counter test is \<open>++tick_counter > 60\<close>, so the action runs on the 61st tick
  and from then on every 61 ticks: after \<open>n\<close> ticks from program start it has run
  \<open>n div 61\<close> times, and the counter holds \<open>n mod 61\<close>.
\<close>

theorem one_second_fires_every_61st_tick:
  "seconds_fired (run_ticks cfg es initial_emu) = length es div 61
   \<and> tick_counter (run_ticks cfg es initial_emu) = int (length es mod 61)"
proof -
  have c0: "tick_counter initial_emu = 0" and f0: "seconds_fired initial_emu = 0"
    by (simp_all add: initial_emu_def seconds_fired_def)
  have "tick_counter (run_ticks cfg es initial_emu) = (0 + int (length es)) mod 61
        \<and> seconds_fired (run_ticks cfg es initial_emu) = 0 + nat ((0 + int (length es)) div 61)"
    using run_ticks_count [of initial_emu cfg es] c0 f0 by simp
  moreover have "nat (int (length es) div 61) = length es div 61"
    by (simp add: nat_div_distrib)
  moreover have "int (length es) mod 61 = int (length es mod 61)"
    by (simp add: zmod_int)
  ultimately show ?thesis by simp
qed

lemma sixty_ticks_no_second:
  "seconds_fired (run_ticks cfg (replicate 60 e) initial_emu) = 0
   \<and> seconds_fired (run_ticks cfg (replicate 61 e) initial_emu) = 1
   \<and> seconds_fired (run_ticks cfg (replicate 120 e) initial_emu) = 1"
  using run_ticks_count [of initial_emu cfg "replicate 60 e"]
    run_ticks_count [of initial_emu cfg "replicate 61 e"]
    run_ticks_count [of initial_emu cfg "replicate 120 e"]
  by (simp add: initial_emu_def seconds_fired_def)


section \<open>The 60Hz interrupt\<close>

text \<open>
  C7 (as amended). \<open>one_tick\<close> raises the 60Hz flag and notifies the CPU core exactly
  when the ROM is not a Classic ROM or the guest has started; with a Classic ROM whose
  guest has not started, \<open>one_tick\<close> raises no 60Hz flag and sends no notification beyond
  those of the one-second action.
\<close>

theorem one_tick_60hz_condition:
  "(ROMVersion e \<noteq> ROM_VERSION_CLASSIC cfg \<or> HasMacStarted e \<longrightarrow>
      InterruptFlags (one_tick cfg e s) =
        (if 60 \<le> tick_counter s then InterruptFlags s OR INTFLAG_1HZ cfg else InterruptFlags s)
          OR INTFLAG_60HZ cfg
      \<and> trace (one_tick cfg e s) =
          trace s
          @ (if 60 \<le> tick_counter s
             then [EvWriteMacInt32 0x20c (TimerDateTime e), EvLockMutex (intflag_lock s),
                   EvUnlockMutex (intflag_lock s), EvTriggerInterrupt]
             else [])
          @ [EvLockMutex (intflag_lock s), EvUnlockMutex (intflag_lock s), EvTriggerInterrupt])
   \<and> (ROMVersion e = ROM_VERSION_CLASSIC cfg \<and> \<not> HasMacStarted e \<longrightarrow>
      InterruptFlags (one_tick cfg e s) =
        (if 60 \<le> tick_counter s then InterruptFlags s OR INTFLAG_1HZ cfg else InterruptFlags s)
      \<and> trace (one_tick cfg e s) =
          trace s
          @ (if 60 \<le> tick_counter s
             then [EvWriteMacInt32 0x20c (TimerDateTime e), EvLockMutex (intflag_lock s),
                   EvUnlockMutex (intflag_lock s), EvTriggerInterrupt]
             else []))"
  by (simp add: one_tick_def Let_def SetInterruptFlag_flags SetInterruptFlag_trace log_event_def
      tick_count_flags tick_count_trace tick_count_lock)

theorem one_tick_60hz_condition_witness:
  "ROMVersion classic_not_started = ROM_VERSION_CLASSIC windows_config
   \<and> \<not> HasMacStarted classic_not_started
   \<and> HasMacStarted classic_started
   \<and> InterruptFlags (one_tick windows_config classic_not_started initial_emu) = 0
   \<and> trace (one_tick windows_config classic_not_started initial_emu) = []
   \<and> InterruptFlags (one_tick windows_config classic_started initial_emu) = 1
   \<and> trace (one_tick windows_config classic_started initial_emu)
       = [EvLockMutex None, EvUnlockMutex None, EvTriggerInterrupt]"
  using one_tick_60hz_condition [of classic_not_started windows_config initial_emu]
    one_tick_60hz_condition [of classic_started windows_config initial_emu]
  by (simp add: windows_config_def classic_not_started_def classic_started_def initial_emu_def)

text \<open>
  With a ROM that is not a Classic ROM, the 60Hz flag is raised although the guest has
  not started.
\<close>

theorem one_tick_60hz_raised_before_boot:
  "\<not> HasMacStarted rom32_not_started
   \<and> InterruptFlags initial_emu = 0
   \<and> InterruptFlags (one_tick windows_config rom32_not_started initial_emu) = INTFLAG_60HZ windows_config
   \<and> trace (one_tick windows_config rom32_not_started initial_emu)
       = [EvLockMutex None, EvUnlockMutex None, EvTriggerInterrupt]"
  by (simp add: one_tick_def tick_count_def Let_def SetInterruptFlag_def LOCK_INTFLAGS_def
      UNLOCK_INTFLAGS_def log_event_def windows_config_def rom32_not_started_def initial_emu_def)


section \<open>The interrupt-flag mutex\<close>

text \<open>
  C10. \<open>SetInterruptFlag(f)\<close> leaves the flag set equal to \<open>s OR f\<close> and
  \<open>ClearInterruptFlag(f)\<close> leaves it equal to \<open>s AND NOT f\<close>, and both bracket the update
  with \<open>SDL_LockMutex(intflag_lock)\<close> and \<open>SDL_UnlockMutex(intflag_lock)\<close>. The pointer
  \<open>intflag_lock\<close> is initialised to \<open>NULL\<close> and neither operation assigns it, so the
  lock and unlock calls receive \<open>NULL\<close>: no mutex is held during the update.
\<close>

theorem interrupt_flag_lock_is_null:
  "intflag_lock initial_emu = None
   \<and> trace (SetInterruptFlag (INTFLAG_60HZ windows_config) initial_emu)
       = [EvLockMutex None, EvUnlockMutex None]
   \<and> InterruptFlags (SetInterruptFlag f s) = InterruptFlags s OR f
   \<and> InterruptFlags (ClearInterruptFlag f s) = InterruptFlags s AND NOT f
   \<and> trace (SetInterruptFlag f s)
       = trace s @ [EvLockMutex (intflag_lock s), EvUnlockMutex (intflag_lock s)]
   \<and> trace (ClearInterruptFlag f s)
       = trace s @ [EvLockMutex (intflag_lock s), EvUnlockMutex (intflag_lock s)]
   \<and> intflag_lock (SetInterruptFlag f s) = intflag_lock s
   \<and> intflag_lock (ClearInterruptFlag f s) = intflag_lock s"
  by (simp add: SetInterruptFlag_flags ClearInterruptFlag_flags SetInterruptFlag_trace
      ClearInterruptFlag_trace SetInterruptFlag_lock ClearInterruptFlag_lock initial_emu_def)

section \<open>The RAM size\<close>

lemma high_mask_eq: "(0xfff00000 :: uint32) = NOT (mask 20)"
  by (simp add: mask_eq_exp_minus_1)

lemma and_high_mask: "(r :: uint32) AND 0xfff00000 = push_bit 20 (drop_bit 20 r)"
  unfolding high_mask_eq
  by (rule bit_eqI) (auto simp add: bit_simps)

lemma unat_and_high_mask: "unat ((r :: uint32) AND 0xfff00000) = unat r - unat r mod 1048576"
proof -
  have lt: "unat r < 4294967296" using unsigned_less [of r, where 'a = nat] by simp
  have "unat (push_bit 20 (drop_bit 20 r)) = take_bit 32 (push_bit 20 (drop_bit 20 (unat r)))"
    by (simp add: unsigned_push_bit_eq unat_drop_bit_eq)
  also have "\<dots> = (unat r div 1048576 * 1048576) mod 4294967296"
    by (simp add: take_bit_eq_mod push_bit_eq_mult drop_bit_eq_div)
  also have "\<dots> = unat r div 1048576 * 1048576"
    using lt by simp
  also have "\<dots> = unat r - unat r mod 1048576"
    by (simp add: minus_mod_eq_div_mult)
  finally show ?thesis by (simp add: and_high_mask)
qed

lemma unat_scale_mib:
  assumes "(p :: uint32) \<le> 1000"
  shows "unat (p * (1024 * 1024)) = unat p * 1048576"
proof -
  have le: "unat p \<le> 1000" using assms by (simp add: word_le_nat_alt)
  have "unat (p * 1048576) = (unat p * 1048576) mod 4294967296"
    by (simp add: unat_word_ariths)
  also have "\<dots> = unat p * 1048576" using le by simp
  finally show ?thesis by simp
qed

lemma read_ram_size_value:
  "unat (RAMSize (read_ram_size p s)) =
     (if unat p \<le> 1000 then (if p = 0 then 1048576 else unat p * 1048576)
      else if unat p < 1048576 then 1048576
      else unat p - unat p mod 1048576)
   \<and> trace (read_ram_size p s) =
       trace s @ (if p = 0 \<or> (1000 < unat p \<and> unat p < 1048576)
                  then [EvWarningAlert STR_SMALL_RAM_WARN] else [])"
proof (cases "p \<le> 1000")
  case True
  then have le: "unat p \<le> 1000" by (simp add: word_le_nat_alt)
  have u: "unat (p * (1024 * 1024) AND 0xfff00000) = unat p * 1048576"
    using unat_and_high_mask [of "p * (1024 * 1024)"] unat_scale_mib [OF True] by simp
  have small: "(p * (1024 * 1024) AND 0xfff00000 < 1024 * 1024) = (p = 0)"
    using u by (auto simp add: word_less_nat_alt unat_eq_0)
  show ?thesis
    using True le u small
    by (simp add: read_ram_size_def Let_def log_event_def)
next
  case False
  then have gt: "1000 < unat p" by (simp add: word_le_nat_alt not_le)
  have u: "unat (p AND 0xfff00000) = unat p - unat p mod 1048576"
    by (rule unat_and_high_mask)
  have "(unat p - unat p mod 1048576 < 1048576) = (unat p < 1048576)"
  proof -
    have "unat p - unat p mod 1048576 = unat p div 1048576 * 1048576"
      by (simp add: minus_mod_eq_div_mult)
    then show ?thesis by (auto simp add: div_eq_0_iff)
  qed
  then have small: "(p AND 0xfff00000 < 1024 * 1024) = (unat p < 1048576)"
    using u by (simp add: word_less_nat_alt)
  have nz: "p \<noteq> 0" using gt by auto
  show ?thesis
    using False gt u small nz
    by (simp add: read_ram_size_def Let_def log_event_def)
qed

text \<open>
  C4 (as amended). For every value \<open>p\<close> of the \<open>ramsize\<close> preference the RAM size is:
  \<open>p\<close> MiB when \<open>p \<le> 1000\<close> (the value is then a number of megabytes), except that
  \<open>p = 0\<close> gives 1 MiB; exactly 1 MiB when \<open>1000 < p < 1 MiB\<close>; and otherwise \<open>p\<close> rounded
  down to the 1 MiB boundary. The small-RAM warning is shown, and nothing fails, exactly
  when the size was raised to 1 MiB, that is for \<open>p = 0\<close> and for \<open>1000 < p < 1 MiB\<close>.
\<close>

theorem read_ram_size_policy:
  "unat (RAMSize (read_ram_size p s)) =
     (if unat p \<le> 1000 then (if p = 0 then 1048576 else unat p * 1048576)
      else if unat p < 1048576 then 1048576
      else unat p - unat p mod 1048576)
   \<and> trace (read_ram_size p s) =
       trace s @ (if p = 0 \<or> (1000 < unat p \<and> unat p < 1048576)
                  then [EvWarningAlert STR_SMALL_RAM_WARN] else [])"
  by (rule read_ram_size_value)

text \<open>
  The requested size 8 is below 1 MiB, and the RAM size becomes 8 MiB, not 1 MiB; no
  warning is shown.
\<close>

theorem read_ram_size_small_value_is_megabytes:
  "unat (8 :: uint32) < 1048576
   \<and> RAMSize (read_ram_size 8 initial_emu) = 8388608
   \<and> RAMSize (read_ram_size 8 initial_emu) \<noteq> 1048576
   \<and> trace (read_ram_size 8 initial_emu) = []"
  by (simp add: read_ram_size_def Let_def log_event_def initial_emu_def)


section \<open>The RAM and ROM areas\<close>

lemma unat_ucast_32_64: "unat (ucast (r :: uint32) :: uint64) = unat r"
proof -
  have "unat r < 2 ^ 32" using unsigned_less [of r, where 'a = nat] by simp
  then have "unat r < 2 ^ 64" by simp
  then show ?thesis by (simp add: unsigned_ucast_eq take_bit_nat_eq_self)
qed

lemma in_region_interval:
  assumes "unat base + unat sz \<le> 2 ^ 64"
  shows "in_region base sz a = (unat base \<le> unat a \<and> unat a < unat base + unat sz)"
proof (cases "base \<le> a")
  case True
  then have "unat (a - base) = unat a - unat base" by (simp add: unat_sub)
  with True show ?thesis
    by (auto simp add: in_region_def word_less_nat_alt word_le_nat_alt)
next
  case False
  then have lt: "unat a < unat base" by (simp add: word_le_nat_alt not_le)
  have a64: "unat a < 2 ^ 64" using unsigned_less [of a, where 'a = nat] by simp
  have "unat (a - base) = 2 ^ 64 + unat a - unat base"
    using lt by (simp add: unat_sub_if_size word_size)
  then have "\<not> unat (a - base) < unat sz" using assms lt by simp
  with lt show ?thesis
    by (simp add: in_region_def word_less_nat_alt)
qed

lemma regions_adjacent_disjoint:
  fixes ram :: uintptr and r :: uint32
  assumes "in_region ram (ucast r) a"
  shows "\<not> in_region (ram + ucast r) 0x100000 a"
proof -
  let ?d = "a - ram"
  let ?R = "ucast r :: uint64"
  have R: "unat ?R < 2 ^ 32"
    using unsigned_less [of r, where 'a = nat] by (simp add: unat_ucast_32_64)
  have d: "unat ?d < unat ?R" using assms by (simp add: in_region_def word_less_nat_alt)
  have eq: "a - (ram + ?R) = ?d - ?R" by simp
  have "unat (?d - ?R) = 2 ^ 64 + unat ?d - unat ?R"
    using d by (simp add: unat_sub_if_size word_size)
  then have "\<not> unat (?d - ?R) < 1048576" using R d by simp
  then show ?thesis
    unfolding in_region_def eq by (simp add: word_less_nat_alt)
qed

lemma read_ram_size_aligned:
  "1048576 \<le> unat (RAMSize (read_ram_size p s))
   \<and> unat (RAMSize (read_ram_size p s)) mod 1048576 = 0"
proof -
  have "unat p - unat p mod 1048576 = unat p div 1048576 * 1048576"
    by (simp add: minus_mod_eq_div_mult)
  moreover have "\<not> unat p < 1048576 \<Longrightarrow> 1048576 \<le> unat p div 1048576 * 1048576"
    by (simp add: div_eq_0_iff Suc_leI)
  moreover have "p \<noteq> 0 \<Longrightarrow> 1 \<le> unat p"
  proof -
    assume "p \<noteq> 0"
    then have "unat p \<noteq> 0" by (simp add: unat_eq_0)
    then show "1 \<le> unat p" by simp
  qed
  ultimately show ?thesis
    using read_ram_size_value [of p s] by auto
qed

lemma read_ram_size_other_fields:
  "RAMBaseHost (read_ram_size p s) = RAMBaseHost s
   \<and> ROMBaseHost (read_ram_size p s) = ROMBaseHost s
   \<and> host_mem (read_ram_size p s) = host_mem s
   \<and> intflag_lock (read_ram_size p s) = intflag_lock s"
  by (simp add: read_ram_size_def Let_def log_event_def)

lemma areas_size_no_wrap:
  assumes al: "unat (RAMSize s) mod 1048576 = 0" and pos: "0 < areas_size s"
  shows "unat (areas_size s) = unat (RAMSize s) + 1048576"
proof -
  let ?r = "unat (RAMSize s)"
  have lt: "?r < 4294967296" using unsigned_less [of "RAMSize s", where 'a = nat] by simp
  have sum: "unat (RAMSize s + 0x100000) = (?r + 1048576) mod 4294967296"
    by (simp add: unat_word_ariths)
  have a: "unat (areas_size s) = (?r + 1048576) mod 4294967296"
    by (simp add: areas_size_def unat_ucast_32_64 sum)
  have nz: "(?r + 1048576) mod 4294967296 \<noteq> 0"
    using pos a by (simp add: word_less_nat_alt)
  have "?r + 1048576 < 4294967296"
  proof (rule ccontr)
    assume "\<not> ?r + 1048576 < 4294967296"
    then have ge: "4293918720 \<le> ?r" by simp
    from al obtain k where k: "?r = 1048576 * k" by (auto simp add: mod_eq_0_iff_dvd)
    from ge lt k have "k = 4095" by simp
    with k have "?r = 4293918720" by simp
    then have "(?r + 1048576) mod 4294967296 = 0" by simp
    with nz show False by simp
  qed
  with a show ?thesis by simp
qed

text \<open>
  C9. For every successful reservation (the RAM size being the one computed from the
  preference, and the allocator returning a valid mapping for the requested size), one
  mapping is requested, of size RAM size + 1 MiB; the RAM region starts at the base of the
  mapping and is its first RAM-size bytes; the ROM region starts exactly at RAM base + RAM
  size and its 1 MiB end where the mapping ends; and no address lies in both regions.
\<close>

theorem create_areas_layout:
  assumes ok: "create_areas cfg vm_acquire (read_ram_size p s0) = Inr s'"
    and vm: "valid_mapping (vm_acquire (areas_size (read_ram_size p s0)))
               (areas_size (read_ram_size p s0))"
  shows "trace s' = trace (read_ram_size p s0) @ [EvVmAcquire (areas_size (read_ram_size p s0))]
    \<and> RAMSize s' = RAMSize (read_ram_size p s0)
    \<and> unat (areas_size (read_ram_size p s0)) = unat (RAMSize s') + 1048576
    \<and> RAMBaseHost s' = vm_acquire (areas_size (read_ram_size p s0))
    \<and> ROMBaseHost s' = RAMBaseHost s' + ucast (RAMSize s')
    \<and> unat (ROMBaseHost s') = unat (RAMBaseHost s') + unat (RAMSize s')
    \<and> unat (ROMBaseHost s') + 1048576 =
        unat (RAMBaseHost s') + unat (areas_size (read_ram_size p s0))
    \<and> \<not> (in_region (RAMBaseHost s') (ucast (RAMSize s')) a
          \<and> in_region (ROMBaseHost s') 0x100000 a)"
proof -
  let ?s = "read_ram_size p s0"
  let ?n = "areas_size ?s"
  let ?b = "vm_acquire ?n"
  have nf: "?b \<noteq> VM_MAP_FAILED cfg"
    using ok by (auto simp add: create_areas_def Let_def fatal_def split: if_splits)
  have s': "s' = (log_event (EvVmAcquire ?n) ?s)\<lparr>RAMBaseHost := ?b,
                   ROMBaseHost := ?b + ucast (RAMSize ?s)\<rparr>"
    using ok nf by (simp add: create_areas_def Let_def log_event_def)
  have tr: "trace s' = trace ?s @ [EvVmAcquire ?n]" and rs: "RAMSize s' = RAMSize ?s"
    and rb: "RAMBaseHost s' = ?b" and mb: "ROMBaseHost s' = ?b + ucast (RAMSize ?s)"
    by (simp_all add: s' log_event_def)
  have pos: "0 < ?n" and sp: "unat ?b + unat ?n \<le> 2 ^ 64"
    using vm by (simp_all add: valid_mapping_def)
  have al: "unat (RAMSize ?s) mod 1048576 = 0"
    using read_ram_size_aligned [of p s0] by simp
  have n: "unat ?n = unat (RAMSize ?s) + 1048576"
    by (rule areas_size_no_wrap [OF al pos])
  have "unat (?b + ucast (RAMSize ?s)) = (unat ?b + unat (RAMSize ?s)) mod 2 ^ 64"
    by (simp add: unat_word_ariths unat_ucast_32_64)
  also have "\<dots> = unat ?b + unat (RAMSize ?s)"
    using sp n by simp
  finally have mu: "unat (ROMBaseHost s') = unat ?b + unat (RAMSize ?s)"
    by (simp add: mb)
  have dj: "\<not> (in_region ?b (ucast (RAMSize ?s)) a
              \<and> in_region (?b + ucast (RAMSize ?s)) 0x100000 a)"
    using regions_adjacent_disjoint [of ?b "RAMSize ?s" a] by blast
  show ?thesis
    using tr rs rb mb n mu dj by simp
qed

theorem create_areas_layout_witness:
  "\<exists>s'. create_areas windows_config (\<lambda>n. 0x10000000) (read_ram_size 8 initial_emu) = Inr s'
     \<and> valid_mapping 0x10000000 (areas_size (read_ram_size 8 initial_emu))
     \<and> RAMSize s' = 8388608
     \<and> RAMBaseHost s' = 0x10000000
     \<and> ROMBaseHost s' = 0x10800000
     \<and> unat (areas_size (read_ram_size 8 initial_emu)) = 9437184"
proof -
  let ?acq = "\<lambda>n :: uint64. (0x10000000 :: uintptr)"
  have r: "RAMSize (read_ram_size 8 initial_emu) = 8388608"
    by (simp add: read_ram_size_def Let_def log_event_def initial_emu_def)
  have a: "areas_size (read_ram_size 8 initial_emu) = 9437184"
    by (simp add: areas_size_def r)
  have vm: "valid_mapping (?acq (areas_size (read_ram_size 8 initial_emu)))
              (areas_size (read_ram_size 8 initial_emu))"
    by (simp add: a valid_mapping_def)
  obtain s' where ok: "create_areas windows_config ?acq (read_ram_size 8 initial_emu) = Inr s'"
    by (simp add: create_areas_def Let_def windows_config_def)
  from create_areas_layout [OF ok vm] r a vm ok show ?thesis
    by simp
qed


section \<open>Loading the ROM\<close>

lemma SDL_WaitThread_frame:
  "host_mem (SDL_WaitThread w s) = host_mem s
   \<and> intflag_lock (SDL_WaitThread w s) = intflag_lock s
   \<and> trace (SDL_WaitThread w s) = trace s @ [EvWaitThread w]"
  by (cases w) (simp_all add: SDL_WaitThread_def log_event_def)

lemma quit_release_host_mem: "host_mem (quit_release cfg s) = host_mem s"
  by (simp add: quit_release_def quit_free_ram_def quit_free_rom_def quit_delete_scratch_def
      log_event_def)

lemma QuitEmulator_host_mem: "host_mem (QuitEmulator cfg s) = host_mem s"
  by (simp add: QuitEmulator_def Let_def log_event_def quit_release_host_mem
      quit_stop_tick_def quit_stop_xpram_def SDL_WaitThread_frame)

lemma load_rom_success:
  assumes "file_size f \<in> {65536, 131072, 262144, 524288, 1048576}"
    and "read_ok f" and "unat (file_size f) \<le> length (read_data f)"
  shows "\<exists>s'. load_rom cfg (Some f) s = Inr s'
           \<and> ROMSize s' = file_size f
           \<and> host_mem s' = store_bytes (ROMBaseHost s)
                 (take (unat (file_size f)) (read_data f)) (host_mem s)
           \<and> trace s' = trace s @ [EvReadFile (ROMBaseHost s) (file_size f)]"
  using assms by (auto simp add: load_rom_def Let_def log_event_def min_def)

text \<open>
  C5. For every ROM file length (as \<open>GetFileSize\<close> returns it) that is not one of 65536,
  131072, 262144, 524288, 1048576, loading stops with the alert \<open>STR_ROM_SIZE_ERR\<close> and
  quits before \<open>ReadFile\<close> is called: no byte of host memory has changed. With a valid
  length, a read that fails or delivers fewer bytes than the length stops with the
  alert \<open>STR_ROM_FILE_READ_ERR\<close>, which is a different identifier.
\<close>

theorem load_rom_errors:
  "(file_size f \<notin> {65536, 131072, 262144, 524288, 1048576} \<longrightarrow>
      (\<exists>s'. load_rom cfg (Some f) s = Inl (STR_ROM_SIZE_ERR, QuitEmulator cfg s')
         \<and> trace s' = trace s @ [EvErrorAlert STR_ROM_SIZE_ERR, EvCloseHandle]
         \<and> host_mem s' = host_mem s
         \<and> host_mem (QuitEmulator cfg s') = host_mem s))
   \<and> (file_size f \<in> {65536, 131072, 262144, 524288, 1048576}
        \<and> (\<not> read_ok f \<or> length (read_data f) < unat (file_size f)) \<longrightarrow>
      (\<exists>s'. load_rom cfg (Some f) s = Inl (STR_ROM_FILE_READ_ERR, QuitEmulator cfg s')
         \<and> trace s' = trace s @ [EvReadFile (ROMBaseHost s) (file_size f),
                                  EvErrorAlert STR_ROM_FILE_READ_ERR, EvCloseHandle]))
   \<and> STR_ROM_SIZE_ERR \<noteq> STR_ROM_FILE_READ_ERR"
proof (intro conjI impI)
  assume bad: "file_size f \<notin> {65536, 131072, 262144, 524288, 1048576}"
  let ?s' = "log_event EvCloseHandle (log_event (EvErrorAlert STR_ROM_SIZE_ERR)
               (s\<lparr>ROMSize := file_size f\<rparr>))"
  have "load_rom cfg (Some f) s = Inl (STR_ROM_SIZE_ERR, QuitEmulator cfg ?s')"
    using bad by (simp add: load_rom_def Let_def fatal_def)
  moreover have "trace ?s' = trace s @ [EvErrorAlert STR_ROM_SIZE_ERR, EvCloseHandle]"
    and "host_mem ?s' = host_mem s"
    by (simp_all add: log_event_def)
  ultimately show "\<exists>s'. load_rom cfg (Some f) s = Inl (STR_ROM_SIZE_ERR, QuitEmulator cfg s')
         \<and> trace s' = trace s @ [EvErrorAlert STR_ROM_SIZE_ERR, EvCloseHandle]
         \<and> host_mem s' = host_mem s
         \<and> host_mem (QuitEmulator cfg s') = host_mem s"
    by (metis QuitEmulator_host_mem)
next
  assume h: "file_size f \<in> {65536, 131072, 262144, 524288, 1048576}
        \<and> (\<not> read_ok f \<or> length (read_data f) < unat (file_size f))"
  let ?d = "take (unat (file_size f)) (read_data f)"
  let ?s2 = "(log_event (EvReadFile (ROMBaseHost s) (file_size f)) (s\<lparr>ROMSize := file_size f\<rparr>))
               \<lparr>host_mem := store_bytes (ROMBaseHost s) ?d (host_mem s)\<rparr>"
  let ?s' = "log_event EvCloseHandle (log_event (EvErrorAlert STR_ROM_FILE_READ_ERR) ?s2)"
  have short: "length (read_data f) < unat (file_size f)
                 \<Longrightarrow> (of_nat (length ?d) :: uint32) \<noteq> file_size f"
  proof
    assume lt: "length (read_data f) < unat (file_size f)"
      and eq: "(of_nat (length ?d) :: uint32) = file_size f"
    have "unat (file_size f) < 2 ^ 32"
      using unsigned_less [of "file_size f", where 'a = nat] by simp
    with lt have "length (read_data f) < 2 ^ 32" by simp
    then have "unat (of_nat (length (read_data f)) :: uint32) = length (read_data f)"
      by (simp add: unat_of_nat)
    with lt eq show False by simp
  qed
  have "load_rom cfg (Some f) s = Inl (STR_ROM_FILE_READ_ERR, QuitEmulator cfg ?s')"
    using h short by (auto simp add: load_rom_def Let_def fatal_def log_event_def)
  moreover have "trace ?s' = trace s @ [EvReadFile (ROMBaseHost s) (file_size f),
                                  EvErrorAlert STR_ROM_FILE_READ_ERR, EvCloseHandle]"
    by (simp add: log_event_def)
  ultimately show "\<exists>s'. load_rom cfg (Some f) s = Inl (STR_ROM_FILE_READ_ERR, QuitEmulator cfg s')
         \<and> trace s' = trace s @ [EvReadFile (ROMBaseHost s) (file_size f),
                                  EvErrorAlert STR_ROM_FILE_READ_ERR, EvCloseHandle]"
    by blast
next
  show "STR_ROM_SIZE_ERR \<noteq> STR_ROM_FILE_READ_ERR" by simp
qed

theorem load_rom_errors_witness:
  "file_size rom_100k \<notin> {65536, 131072, 262144, 524288, 1048576}
   \<and> file_size rom_64k_short \<in> {65536, 131072, 262144, 524288, 1048576}
   \<and> length (read_data rom_64k_short) < unat (file_size rom_64k_short)
   \<and> (\<exists>s'. load_rom windows_config (Some rom_100k) initial_emu
            = Inl (STR_ROM_SIZE_ERR, QuitEmulator windows_config s')
         \<and> trace s' = [EvErrorAlert STR_ROM_SIZE_ERR, EvCloseHandle]
         \<and> host_mem s' = host_mem initial_emu
         \<and> host_mem (QuitEmulator windows_config s') = host_mem initial_emu)
   \<and> (\<exists>s'. load_rom windows_config (Some rom_64k_short) initial_emu
            = Inl (STR_ROM_FILE_READ_ERR, QuitEmulator windows_config s')
         \<and> trace s' = [EvReadFile 0 65536, EvErrorAlert STR_ROM_FILE_READ_ERR, EvCloseHandle])"
proof -
  have a: "file_size rom_100k \<notin> {65536, 131072, 262144, 524288, 1048576}"
    by (simp add: rom_100k_def)
  have b: "file_size rom_64k_short \<in> {65536, 131072, 262144, 524288, 1048576}
        \<and> (\<not> read_ok rom_64k_short
             \<or> length (read_data rom_64k_short) < unat (file_size rom_64k_short))"
    by (simp add: rom_64k_short_def)
  have t0: "trace initial_emu = []" and r0: "ROMBaseHost initial_emu = 0"
    and f64: "file_size rom_64k_short = 65536"
    by (simp_all add: initial_emu_def rom_64k_short_def)
  from load_rom_errors [where f = rom_100k and cfg = windows_config and s = initial_emu]
    load_rom_errors [where f = rom_64k_short and cfg = windows_config and s = initial_emu]
    a b t0 r0 f64
  show ?thesis by (simp add: rom_100k_def rom_64k_short_def)
qed


section \<open>Quitting\<close>

lemma quit_release_trace:
  "trace (quit_release cfg s) =
     trace s
     @ (if RAMBaseHost s \<noteq> VM_MAP_FAILED cfg
        then [EvVmRelease (RAMBaseHost s) (ucast (RAMSize s))] else [])
     @ (if ROMBaseHost s \<noteq> VM_MAP_FAILED cfg
        then [EvVmRelease (ROMBaseHost s) 0x100000] else [])
     @ (if USE_SCRATCHMEM_SUBTERFUGE cfg \<and> ScratchMem s \<noteq> VM_MAP_FAILED cfg
        then [EvVmRelease (ScratchMem s - SCRATCH_MEM_SIZE div 2) SCRATCH_MEM_SIZE] else [])"
  by (simp add: quit_release_def quit_free_ram_def quit_free_rom_def quit_delete_scratch_def
      log_event_def)

lemma quit_release_pointers:
  "RAMBaseHost (quit_release cfg s) = (if RAMBaseHost s \<noteq> VM_MAP_FAILED cfg then 0 else RAMBaseHost s)
   \<and> ROMBaseHost (quit_release cfg s) = (if ROMBaseHost s \<noteq> VM_MAP_FAILED cfg then 0 else ROMBaseHost s)
   \<and> ScratchMem (quit_release cfg s) =
       (if USE_SCRATCHMEM_SUBTERFUGE cfg \<and> ScratchMem s \<noteq> VM_MAP_FAILED cfg then 0 else ScratchMem s)
   \<and> RAMSize (quit_release cfg s) = RAMSize s"
  by (simp add: quit_release_def quit_free_ram_def quit_free_rom_def quit_delete_scratch_def
      log_event_def)

lemma quit_release_workers:
  "tick_thread_running (quit_release cfg s) = tick_thread_running s
   \<and> xpram_thread_running (quit_release cfg s) = xpram_thread_running s
   \<and> tick_thread_cancel (quit_release cfg s) = tick_thread_cancel s
   \<and> xpram_thread_cancel (quit_release cfg s) = xpram_thread_cancel s"
  by (simp add: quit_release_def quit_free_ram_def quit_free_rom_def quit_delete_scratch_def
      log_event_def)

lemma QuitEmulator_decompose:
  "QuitEmulator cfg s =
     log_event (EvExit 0) (log_event EvPrefsExit (log_event EvSysExit (log_event EvVmExit
       (quit_release cfg (quit_before_release s)))))"
  by (simp add: QuitEmulator_def quit_before_release_def Let_def)

lemma quit_before_release_started:
  assumes "tick_thread_active s" and "xpram_thread_active s"
  shows "trace (quit_before_release s) =
           trace s @ [EvExit680x0, EvCancel TickThread, EvWaitThread TickThread,
                      EvCancel XpramThread, EvWaitThread XpramThread, EvExitAll]
         \<and> tick_thread_cancel (quit_before_release s)
         \<and> xpram_thread_cancel (quit_before_release s)
         \<and> \<not> tick_thread_running (quit_before_release s)
         \<and> \<not> xpram_thread_running (quit_before_release s)
         \<and> RAMBaseHost (quit_before_release s) = RAMBaseHost s
         \<and> ROMBaseHost (quit_before_release s) = ROMBaseHost s
         \<and> ScratchMem (quit_before_release s) = ScratchMem s
         \<and> RAMSize (quit_before_release s) = RAMSize s"
  using assms
  by (simp add: quit_before_release_def quit_stop_tick_def quit_stop_xpram_def
      SDL_WaitThread_def log_event_def)

text \<open>
  C8. For every run of \<open>QuitEmulator\<close> with both worker threads started, the actions of
  the run are, in this order: the cancellation flag of the tick thread is set and the
  thread joined, the cancellation flag of the XPRAM thread is set and the thread
  joined, \<open>ExitAll()\<close>, and only then the releases of the RAM, ROM and scratch regions.
  When the first release begins both flags are set and neither worker can execute any
  more, and this remains so until the process exits.
\<close>

theorem QuitEmulator_stops_workers_before_release:
  assumes "tick_thread_active s" and "xpram_thread_active s"
  shows "trace (QuitEmulator cfg s) =
           trace s
           @ [EvExit680x0, EvCancel TickThread, EvWaitThread TickThread,
              EvCancel XpramThread, EvWaitThread XpramThread, EvExitAll]
           @ (if RAMBaseHost s \<noteq> VM_MAP_FAILED cfg
              then [EvVmRelease (RAMBaseHost s) (ucast (RAMSize s))] else [])
           @ (if ROMBaseHost s \<noteq> VM_MAP_FAILED cfg
              then [EvVmRelease (ROMBaseHost s) 0x100000] else [])
           @ (if USE_SCRATCHMEM_SUBTERFUGE cfg \<and> ScratchMem s \<noteq> VM_MAP_FAILED cfg
              then [EvVmRelease (ScratchMem s - SCRATCH_MEM_SIZE div 2) SCRATCH_MEM_SIZE] else [])
           @ [EvVmExit, EvSysExit, EvPrefsExit, EvExit 0]
         \<and> trace (quit_before_release s) =
           trace s
           @ [EvExit680x0, EvCancel TickThread, EvWaitThread TickThread,
              EvCancel XpramThread, EvWaitThread XpramThread, EvExitAll]
         \<and> tick_thread_cancel (quit_before_release s)
         \<and> xpram_thread_cancel (quit_before_release s)
         \<and> \<not> tick_thread_running (quit_before_release s)
         \<and> \<not> xpram_thread_running (quit_before_release s)
         \<and> \<not> tick_thread_running (QuitEmulator cfg s)
         \<and> \<not> xpram_thread_running (QuitEmulator cfg s)"
proof -
  note b = quit_before_release_started [OF assms]
  have t: "trace (QuitEmulator cfg s) =
             trace (quit_release cfg (quit_before_release s))
             @ [EvVmExit, EvSysExit, EvPrefsExit, EvExit 0]"
    by (simp add: QuitEmulator_decompose log_event_def)
  have r: "tick_thread_running (QuitEmulator cfg s) = tick_thread_running (quit_before_release s)
         \<and> xpram_thread_running (QuitEmulator cfg s) = xpram_thread_running (quit_before_release s)"
    by (simp add: QuitEmulator_decompose log_event_def quit_release_workers)
  show ?thesis
    using b r unfolding t quit_release_trace [of cfg "quit_before_release s"] by simp
qed

theorem QuitEmulator_stops_workers_before_release_witness:
  "tick_thread_active running_emu \<and> xpram_thread_active running_emu
   \<and> tick_thread_running running_emu \<and> xpram_thread_running running_emu
   \<and> trace (QuitEmulator windows_config running_emu) =
       [EvExit680x0, EvCancel TickThread, EvWaitThread TickThread,
        EvCancel XpramThread, EvWaitThread XpramThread, EvExitAll,
        EvVmRelease 0x10000000 0x800000, EvVmRelease 0x10800000 0x100000,
        EvVmRelease 0x20000000 0x10000,
        EvVmExit, EvSysExit, EvPrefsExit, EvExit 0]
   \<and> \<not> tick_thread_running (quit_before_release running_emu)
   \<and> \<not> xpram_thread_running (quit_before_release running_emu)"
proof -
  have a: "tick_thread_active running_emu" and b: "xpram_thread_active running_emu"
    by (simp_all add: running_emu_def initial_emu_def)
  from QuitEmulator_stops_workers_before_release [OF a b, of windows_config]
  show ?thesis
    by (simp add: running_emu_def initial_emu_def windows_config_def SCRATCH_MEM_SIZE_def)
qed


section \<open>Releasing regions that are not reserved\<close>

text \<open>
  C3. Releasing is to be a no-op on a region that was never reserved or has already
  been released. The guards of \<open>QuitEmulator\<close> compare each pointer with \<open>VM_MAP_FAILED\<close>,
  but a pointer that was never set, or that a release has cleared, is \<open>NULL\<close>. So with
  \<open>VM_MAP_FAILED = (void *)-1\<close>: on the state in which \<open>run\<close> starts, \<open>vm_release\<close> is called
  for all three regions, with a \<open>NULL\<close> base; a second release after a first one calls
  \<open>vm_release\<close> again; and when the allocation of the RAM and ROM areas fails, the
  teardown calls \<open>vm_release\<close> on the regions that were never reserved.
\<close>

theorem quit_release_unreserved_regions:
  "RAMBaseHost (init_variables initial_emu) = 0
   \<and> ROMBaseHost (init_variables initial_emu) = 0
   \<and> ScratchMem (init_variables initial_emu) = 0
   \<and> trace (quit_release windows_config (init_variables initial_emu)) =
       [EvVmRelease 0 0, EvVmRelease 0 0x100000, EvVmRelease (0 - 0x8000) 0x10000]
   \<and> trace (quit_release windows_config (quit_release windows_config running_emu)) =
       [EvVmRelease 0x10000000 0x800000, EvVmRelease 0x10800000 0x100000,
        EvVmRelease 0x20000000 0x10000,
        EvVmRelease 0 0x800000, EvVmRelease 0 0x100000, EvVmRelease (0 - 0x8000) 0x10000]
   \<and> (case create_areas windows_config (\<lambda>n. - 1) (read_ram_size 8 (init_variables initial_emu)) of
        Inl (msg, fin) \<Rightarrow>
          msg = STR_NO_MEM_ERR
          \<and> trace fin =
              [EvVmAcquire 0x900000, EvErrorAlert STR_NO_MEM_ERR, EvExit680x0, EvExitAll,
               EvVmRelease 0 0x800000, EvVmRelease 0 0x100000, EvVmRelease (0 - 0x8000) 0x10000,
               EvVmExit, EvSysExit, EvPrefsExit, EvExit 0]
      | Inr s' \<Rightarrow> False)"
proof -
  have i: "RAMBaseHost (init_variables initial_emu) = 0
           \<and> ROMBaseHost (init_variables initial_emu) = 0
           \<and> ScratchMem (init_variables initial_emu) = 0
           \<and> RAMSize (init_variables initial_emu) = 0
           \<and> trace (init_variables initial_emu) = []"
    by (simp add: init_variables_def initial_emu_def)
  have c: "VM_MAP_FAILED windows_config = - 1 \<and> USE_SCRATCHMEM_SUBTERFUGE windows_config"
    by (simp add: windows_config_def)
  have one: "trace (quit_release windows_config (init_variables initial_emu)) =
       [EvVmRelease 0 0, EvVmRelease 0 0x100000, EvVmRelease (0 - 0x8000) 0x10000]"
    by (simp add: quit_release_trace i c SCRATCH_MEM_SIZE_def)
  have two: "trace (quit_release windows_config (quit_release windows_config running_emu)) =
       [EvVmRelease 0x10000000 0x800000, EvVmRelease 0x10800000 0x100000,
        EvVmRelease 0x20000000 0x10000,
        EvVmRelease 0 0x800000, EvVmRelease 0 0x100000, EvVmRelease (0 - 0x8000) 0x10000]"
    by (simp add: quit_release_trace quit_release_pointers c SCRATCH_MEM_SIZE_def
        running_emu_def initial_emu_def)
  have r: "read_ram_size 8 (init_variables initial_emu) = (init_variables initial_emu)\<lparr>RAMSize := 0x800000\<rparr>"
    by (simp add: read_ram_size_def Let_def)
  have three: "(case create_areas windows_config (\<lambda>n. - 1) (read_ram_size 8 (init_variables initial_emu)) of
        Inl (msg, fin) \<Rightarrow>
          msg = STR_NO_MEM_ERR
          \<and> trace fin =
              [EvVmAcquire 0x900000, EvErrorAlert STR_NO_MEM_ERR, EvExit680x0, EvExitAll,
               EvVmRelease 0 0x800000, EvVmRelease 0 0x100000, EvVmRelease (0 - 0x8000) 0x10000,
               EvVmExit, EvSysExit, EvPrefsExit, EvExit 0]
      | Inr s' \<Rightarrow> False)"
    unfolding r
    by (simp add: create_areas_def areas_size_def Let_def fatal_def c
        QuitEmulator_decompose quit_release_trace quit_before_release_def
        quit_stop_tick_def quit_stop_xpram_def log_event_def init_variables_def
        initial_emu_def SCRATCH_MEM_SIZE_def)
  from i one two three show ?thesis by simp
qed


section \<open>Fault classification\<close>

text \<open>
  C1 (as amended). In a build with the screen-fault delegate and instruction skipping,
  the handler is a total function of the fault, the extent of the loaded ROM image and
  the two collaborators' answers, and it returns what the four-way classification
  prescribes, in its order: a fault that the video collaborator handles resumes;
  otherwise a fault address inside the loaded ROM image (the \<open>ROMSize\<close> bytes from
  \<open>ROMBaseHost\<close>, not the whole 1 MiB ROM region) skips the instruction; otherwise the
  \<open>ignoresegv\<close> preference skips the instruction; otherwise the handler returns failure.
  The handler only reads the state and returns a code: it writes nothing, so the host
  copy of the ROM is as before.
\<close>

theorem sigsegv_handler_classification:
  assumes vosf: "ENABLE_VOSF cfg" and skip: "HAVE_SIGSEGV_SKIP_INSTRUCTION cfg"
    and rom: "unat (ROMBaseHost s) + unat (ROMSize s) \<le> 2 ^ 64"
  shows "sigsegv_handler cfg Screen_fault_handler PrefsFindBool s sip =
           disposition_return
             (spec_fault_disposition (Screen_fault_handler sip) (ROMBaseHost s) (ROMSize s)
                (PrefsFindBool ''ignoresegv'') (fault_address sip))"
proof -
  have "unat (ROMBaseHost s) + unat (ucast (ROMSize s) :: uint64) \<le> 2 ^ 64"
    using rom by (simp add: unat_ucast_32_64)
  then have "in_region (ROMBaseHost s) (ucast (ROMSize s)) (fault_address sip) =
          (unat (ROMBaseHost s) \<le> unat (fault_address sip)
           \<and> unat (fault_address sip) < unat (ROMBaseHost s) + unat (ROMSize s))"
    using in_region_interval [of "ROMBaseHost s" "ucast (ROMSize s)" "fault_address sip"]
    by (simp add: unat_ucast_32_64)
  then show ?thesis
    using vosf skip by (simp add: sigsegv_handler_def spec_fault_disposition_def)
qed

theorem sigsegv_handler_classification_witness:
  "ENABLE_VOSF windows_config \<and> HAVE_SIGSEGV_SKIP_INSTRUCTION windows_config
   \<and> unat (ROMBaseHost running_emu) + unat (ROMSize running_emu) \<le> 2 ^ 64
   \<and> sigsegv_handler windows_config example_screen (\<lambda>k. False) running_emu screen_fault
     = SIGSEGV_RETURN_SUCCESS
   \<and> sigsegv_handler windows_config example_screen (\<lambda>k. False) running_emu rom_fault
     = SIGSEGV_RETURN_SKIP_INSTRUCTION
   \<and> sigsegv_handler windows_config example_screen (\<lambda>k. True) running_emu other_fault
     = SIGSEGV_RETURN_SKIP_INSTRUCTION
   \<and> sigsegv_handler windows_config example_screen (\<lambda>k. False) running_emu other_fault
     = SIGSEGV_RETURN_FAILURE"
proof -
  have c: "ENABLE_VOSF windows_config" "HAVE_SIGSEGV_SKIP_INSTRUCTION windows_config"
    by (simp_all add: windows_config_def)
  have r: "unat (ROMBaseHost running_emu) + unat (ROMSize running_emu) \<le> 2 ^ 64"
    by (simp add: running_emu_def initial_emu_def)
  have v: "ROMBaseHost running_emu = 0x10800000" "ROMSize running_emu = 0x20000"
    by (simp_all add: running_emu_def initial_emu_def)
  note h = sigsegv_handler_classification [OF c r]
  show ?thesis
    unfolding h [of example_screen "\<lambda>k. False" screen_fault]
      h [of example_screen "\<lambda>k. False" rom_fault]
      h [of example_screen "\<lambda>k. True" other_fault]
      h [of example_screen "\<lambda>k. False" other_fault]
    using c r
    by (simp add: spec_fault_disposition_def example_screen_def screen_fault_def rom_fault_def
        other_fault_def v)
qed

text \<open>
  With a 128 KiB image, the address 0x10820000 lies inside the 1 MiB ROM region but past
  the image: classified against the ROM region the fault would be a benign write and
  the instruction skipped, while the handler returns failure. With a 1 MiB image the same
  fault is skipped, so the result depends on the length of the image.
\<close>

theorem sigsegv_handler_rom_region_past_image:
  "ROMBaseHost running_emu = 0x10800000
   \<and> ROMSize running_emu = 0x20000
   \<and> unat (ROMBaseHost running_emu) \<le> unat (fault_address beyond_image_fault)
   \<and> unat (fault_address beyond_image_fault) < unat (ROMBaseHost running_emu) + 0x100000
   \<and> in_region (ROMBaseHost running_emu) 0x100000 (fault_address beyond_image_fault)
   \<and> \<not> example_screen beyond_image_fault
   \<and> disposition_return
         (spec_fault_disposition (example_screen beyond_image_fault) (ROMBaseHost running_emu)
            0x100000 (prefs_ignoresegv_off ''ignoresegv'') (fault_address beyond_image_fault))
       = SIGSEGV_RETURN_SKIP_INSTRUCTION
   \<and> sigsegv_handler windows_config example_screen prefs_ignoresegv_off running_emu
         beyond_image_fault
       = SIGSEGV_RETURN_FAILURE
   \<and> sigsegv_handler windows_config example_screen prefs_ignoresegv_off
         (running_emu\<lparr>ROMSize := 0x100000\<rparr>) beyond_image_fault
       = SIGSEGV_RETURN_SKIP_INSTRUCTION"
  by (simp add: sigsegv_handler_def spec_fault_disposition_def in_region_def example_screen_def
      beyond_image_fault_def prefs_ignoresegv_off_def running_emu_def initial_emu_def
      windows_config_def)


section \<open>The tick loop\<close>

lemma sint_pos_eq_uint:
  fixes w :: uint64
  assumes "0 < sint w"
  shows "sint w = uint w"
proof -
  have "sint w < 2 ^ 63" using sint_lt [of w] by simp
  then have "sint w < 2 ^ 64" by simp
  with assms have "take_bit 64 (sint w) = sint w"
    by (simp add: take_bit_int_eq_self)
  then show ?thesis using uint_sint [of w] by simp
qed

lemma sint_small_eq_uint:
  fixes w :: uint64
  assumes "uint w < 2 ^ 63"
  shows "sint w = uint w"
proof -
  have "- (2 ^ 63) \<le> uint w" by (rule order_trans [of _ 0]) simp_all
  with assms show ?thesis
    by (simp add: sint_uint signed_take_bit_int_eq_self)
qed

lemma uint_ucast_64_32:
  fixes w :: uint64
  assumes "uint w < 2 ^ 32"
  shows "uint (ucast w :: uint32) = uint w"
  using assms by (simp add: unsigned_ucast_eq take_bit_int_eq_self)

lemma tick_body_sleep:
  assumes "0 < sint (nxt l + 16625 - now i)"
  shows "tick_body cfg i (s, l) =
           (log_event (EvDelay_usec (ucast (nxt l + 16625 - now i))) (one_tick cfg (tenv i) s),
            l\<lparr>nxt := nxt l + 16625, ticks := ticks l + 1\<rparr>)"
  using assms by (simp add: tick_body_def Let_def)

lemma tick_body_resync:
  assumes "sint (nxt l + 16625 - now i) < - 16625"
  shows "tick_body cfg i (s, l) =
           (one_tick cfg (tenv i) s, l\<lparr>nxt := now_resync i, ticks := ticks l + 1\<rparr>)"
  using assms by (simp add: tick_body_def Let_def)

lemma tick_body_behind:
  assumes "- 16625 \<le> sint (nxt l + 16625 - now i)" and "sint (nxt l + 16625 - now i) \<le> 0"
  shows "tick_body cfg i (s, l) =
           (one_tick cfg (tenv i) s, l\<lparr>nxt := nxt l + 16625, ticks := ticks l + 1\<rparr>)"
  using assms by (simp add: tick_body_def Let_def)

lemma delay_after_resync:
  fixes r n :: uint64
  assumes "n - r < 16625"
  shows "sint (r + 16625 - n) = 16625 - uint (n - r)"
    and "uint (ucast (r + 16625 - n) :: uint32) = 16625 - uint (n - r)"
proof -
  let ?e = "n - r"
  have e: "uint ?e < 16625" using assms by (simp add: word_less_def)
  have eq: "r + 16625 - n = 16625 - ?e" by simp
  have le: "?e \<le> 16625" using assms by simp
  have u: "uint (16625 - ?e) = 16625 - uint ?e"
    using le by (simp add: uint_minus_simple_alt)
  have b: "uint (16625 - ?e) \<le> 16625" unfolding u by simp
  have "uint (16625 - ?e) < 2 ^ 63" using b by simp
  then show "sint (r + 16625 - n) = 16625 - uint (n - r)"
    unfolding eq using u by (simp add: sint_small_eq_uint)
  have "uint (16625 - ?e) < 2 ^ 32" using b by simp
  then show "uint (ucast (r + 16625 - n) :: uint32) = 16625 - uint (n - r)"
    unfolding eq using u by (simp add: uint_ucast_64_32)
qed

lemma delay_bounded_on_schedule:
  fixes d n :: uint64
  assumes "0 \<le> sint (n - d)"
  shows "sint (d + 16625 - n) \<le> 16625"
proof -
  let ?x = "n - d"
  have eq: "d + 16625 - n = 16625 - ?x" by simp
  have x: "sint ?x < 2 ^ 63" using sint_lt [of ?x] by simp
  have c: "sint (16625 :: uint64) = 16625" by simp
  have lo: "- (2 ^ 63) \<le> 16625 - sint ?x" using x by simp
  have hi: "16625 - sint ?x < 2 ^ 63" using assms by simp
  have "sint (16625 - ?x) = signed_take_bit 63 (16625 - sint ?x)"
    using sint_word_diff [of "16625 :: uint64" ?x] c by simp
  also have "\<dots> = 16625 - sint ?x"
    using lo hi by (simp add: signed_take_bit_int_eq_self)
  finally show ?thesis unfolding eq using assms by simp
qed

lemma started_tick_trace:
  "trace (one_tick windows_config classic_started s) =
     trace (tick_count windows_config classic_started s)
     @ [EvLockMutex (intflag_lock s), EvUnlockMutex (intflag_lock s), EvTriggerInterrupt]"
  by (simp add: one_tick_def Let_def SetInterruptFlag_trace log_event_def tick_count_lock
      classic_started_def)

text \<open>
  C6 (as amended). For every state of the tick loop, with \<open>delay\<close> the signed 64-bit
  difference of the advanced deadline and the clock: every iteration runs \<open>one_tick\<close>
  once. If \<open>delay > 0\<close> the deadline advances by 16625 and the worker sleeps for \<open>delay\<close>
  converted to the \<open>uint32\<close> argument of \<open>Delay_usec\<close>, which is \<open>delay\<close> itself whenever
  \<open>delay < 2 ^ 32\<close>; and \<open>delay\<close> is at most 16625 whenever the clock has reached the
  previous deadline. If \<open>delay < - 16625\<close> the deadline is set to the clock, read again,
  and the worker does not sleep. Otherwise the deadline advances by 16625 and the worker
  does not sleep. After an iteration that resynchronised, if the clock has advanced by
  less than one period when the next iteration reads it, that iteration runs \<open>one_tick\<close>
  once and sleeps for the rest of the period: one tick after the stall, whatever its
  length.
\<close>

theorem tick_body_drift_correction:
  "(0 < sint (nxt l + 16625 - now i) \<longrightarrow>
      tick_body cfg i (s, l) =
        (log_event (EvDelay_usec (ucast (nxt l + 16625 - now i))) (one_tick cfg (tenv i) s),
         l\<lparr>nxt := nxt l + 16625, ticks := ticks l + 1\<rparr>)
      \<and> (sint (nxt l + 16625 - now i) < 2 ^ 32 \<longrightarrow>
            uint (ucast (nxt l + 16625 - now i) :: uint32) = sint (nxt l + 16625 - now i)))
   \<and> (0 \<le> sint (now i - nxt l) \<longrightarrow> sint (nxt l + 16625 - now i) \<le> 16625)
   \<and> (sint (nxt l + 16625 - now i) < - 16625 \<longrightarrow>
      tick_body cfg i (s, l) =
        (one_tick cfg (tenv i) s, l\<lparr>nxt := now_resync i, ticks := ticks l + 1\<rparr>))
   \<and> (- 16625 \<le> sint (nxt l + 16625 - now i) \<and> sint (nxt l + 16625 - now i) \<le> 0 \<longrightarrow>
      tick_body cfg i (s, l) =
        (one_tick cfg (tenv i) s, l\<lparr>nxt := nxt l + 16625, ticks := ticks l + 1\<rparr>))
   \<and> (sint (nxt l + 16625 - now i) < - 16625 \<and> now j - now_resync i < 16625 \<longrightarrow>
      tick_loop cfg [i, j] (s, l) =
        (log_event (EvDelay_usec (ucast (now_resync i + 16625 - now j)))
           (one_tick cfg (tenv j) (one_tick cfg (tenv i) s)),
         l\<lparr>nxt := now_resync i + 16625, ticks := ticks l + 2\<rparr>)
      \<and> uint (ucast (now_resync i + 16625 - now j) :: uint32)
          = 16625 - uint (now j - now_resync i))"
proof (intro conjI impI)
  assume p: "0 < sint (nxt l + 16625 - now i)"
  show "tick_body cfg i (s, l) =
        (log_event (EvDelay_usec (ucast (nxt l + 16625 - now i))) (one_tick cfg (tenv i) s),
         l\<lparr>nxt := nxt l + 16625, ticks := ticks l + 1\<rparr>)"
    by (rule tick_body_sleep [OF p])
  assume b: "sint (nxt l + 16625 - now i) < 2 ^ 32"
  have e: "sint (nxt l + 16625 - now i) = uint (nxt l + 16625 - now i)"
    by (rule sint_pos_eq_uint [OF p])
  with b have "uint (nxt l + 16625 - now i) < 2 ^ 32" by simp
  then show "uint (ucast (nxt l + 16625 - now i) :: uint32) = sint (nxt l + 16625 - now i)"
    using e by (simp add: uint_ucast_64_32)
next
  assume "0 \<le> sint (now i - nxt l)"
  then show "sint (nxt l + 16625 - now i) \<le> 16625"
    by (rule delay_bounded_on_schedule)
next
  assume "sint (nxt l + 16625 - now i) < - 16625"
  then show "tick_body cfg i (s, l) =
        (one_tick cfg (tenv i) s, l\<lparr>nxt := now_resync i, ticks := ticks l + 1\<rparr>)"
    by (rule tick_body_resync)
next
  assume "- 16625 \<le> sint (nxt l + 16625 - now i) \<and> sint (nxt l + 16625 - now i) \<le> 0"
  then show "tick_body cfg i (s, l) =
        (one_tick cfg (tenv i) s, l\<lparr>nxt := nxt l + 16625, ticks := ticks l + 1\<rparr>)"
    by (simp add: tick_body_behind)
next
  assume h: "sint (nxt l + 16625 - now i) < - 16625 \<and> now j - now_resync i < 16625"
  then have st: "sint (nxt l + 16625 - now i) < - 16625" and nj: "now j - now_resync i < 16625"
    by simp_all
  let ?l1 = "l\<lparr>nxt := now_resync i, ticks := ticks l + 1\<rparr>"
  have d: "sint (now_resync i + 16625 - now j) = 16625 - uint (now j - now_resync i)"
    by (rule delay_after_resync(1) [OF nj])
  have "uint (now j - now_resync i) < 16625" using nj by (simp add: word_less_def)
  with d have pos: "0 < sint (nxt ?l1 + 16625 - now j)" by simp
  have "tick_loop cfg [i, j] (s, l) = tick_body cfg j (one_tick cfg (tenv i) s, ?l1)"
    by (simp add: tick_body_resync [OF st])
  also have "\<dots> = (log_event (EvDelay_usec (ucast (nxt ?l1 + 16625 - now j)))
                        (one_tick cfg (tenv j) (one_tick cfg (tenv i) s)),
                      ?l1\<lparr>nxt := nxt ?l1 + 16625, ticks := ticks ?l1 + 1\<rparr>)"
    by (rule tick_body_sleep [OF pos])
  finally show "tick_loop cfg [i, j] (s, l) =
        (log_event (EvDelay_usec (ucast (now_resync i + 16625 - now j)))
           (one_tick cfg (tenv j) (one_tick cfg (tenv i) s)),
         l\<lparr>nxt := now_resync i + 16625, ticks := ticks l + 2\<rparr>)"
    by simp
  show "uint (ucast (now_resync i + 16625 - now j) :: uint32)
          = 16625 - uint (now j - now_resync i)"
    by (rule delay_after_resync(2) [OF nj])
qed

theorem tick_body_drift_correction_witness:
  "sint (nxt late_locals + 16625 - now stalled_input) = - 149630
   \<and> snd (tick_loop windows_config [stalled_input, following_input] (initial_emu, late_locals))
       = \<lparr> start = 0, ticks = 2, nxt = 1182885 \<rparr>
   \<and> trace (fst (tick_loop windows_config [stalled_input, following_input]
                     (initial_emu, late_locals)))
       = [EvLockMutex None, EvUnlockMutex None, EvTriggerInterrupt,
          EvLockMutex None, EvUnlockMutex None, EvTriggerInterrupt,
          EvDelay_usec 16585]
   \<and> sint (nxt late_locals + 16625 - now on_time_input) = 16525
   \<and> snd (tick_body windows_config on_time_input (initial_emu, late_locals))
       = \<lparr> start = 0, ticks = 1, nxt = 1016625 \<rparr>
   \<and> trace (fst (tick_body windows_config on_time_input (initial_emu, late_locals)))
       = [EvLockMutex None, EvUnlockMutex None, EvTriggerInterrupt, EvDelay_usec 16525]"
proof -
  have d1: "sint (nxt late_locals + 16625 - now stalled_input) = - 149630"
    by (simp add: late_locals_def stalled_input_def)
  have d2: "now following_input - now_resync stalled_input < 16625"
    by (simp add: following_input_def stalled_input_def)
  have d3: "sint (nxt late_locals + 16625 - now on_time_input) = 16525"
    by (simp add: late_locals_def on_time_input_def)
  have t1: "trace (one_tick windows_config classic_started initial_emu)
              = [EvLockMutex None, EvUnlockMutex None, EvTriggerInterrupt]"
    by (simp add: started_tick_trace tick_count_trace initial_emu_def)
  have c1: "tick_counter (one_tick windows_config classic_started initial_emu) = 1"
    and k1: "intflag_lock (one_tick windows_config classic_started initial_emu) = None"
    by (simp_all add: one_tick_counter one_tick_lock initial_emu_def)
  have t2: "trace (one_tick windows_config classic_started
                     (one_tick windows_config classic_started initial_emu))
              = [EvLockMutex None, EvUnlockMutex None, EvTriggerInterrupt,
                 EvLockMutex None, EvUnlockMutex None, EvTriggerInterrupt]"
  proof -
    have i0: "tick_counter initial_emu = 0" "trace initial_emu = []"
      "intflag_lock initial_emu = None"
      by (simp_all add: initial_emu_def)
    show ?thesis
      by (simp add: started_tick_trace tick_count_trace one_tick_counter one_tick_lock i0)
  qed
  note th = tick_body_drift_correction
    [where l = late_locals and i = stalled_input and j = following_input
       and cfg = windows_config and s = initial_emu]
  note tk = tick_body_drift_correction
    [where l = late_locals and i = on_time_input and j = following_input
       and cfg = windows_config and s = initial_emu]
  have pre: "sint (nxt late_locals + 16625 - now stalled_input) < - 16625
             \<and> now following_input - now_resync stalled_input < 16625"
    using d1 d2 by simp
  have p3: "0 < sint (nxt late_locals + 16625 - now on_time_input)"
    using d3 by simp
  note two = th [THEN conjunct2, THEN conjunct2, THEN conjunct2, THEN conjunct2, THEN mp,
      OF pre, THEN conjunct1]
  note one = tk [THEN conjunct1, THEN mp, OF p3, THEN conjunct1]
  have e: "tenv stalled_input = classic_started" "tenv following_input = classic_started"
    "tenv on_time_input = classic_started"
    by (simp_all add: stalled_input_def following_input_def on_time_input_def)
  show ?thesis
    unfolding two one e
    by (simp add: d1 d3 t1 t2 log_event_def late_locals_def stalled_input_def
        following_input_def on_time_input_def)
qed

text \<open>
  With the deadline \<open>2 ^ 32 + 5\<close> microseconds after the clock reading, \<open>delay\<close> is
  4294967301 and the worker sleeps for 5 microseconds.
\<close>

theorem tick_body_sleep_truncated:
  "sint (nxt far_locals + 16625 - now zero_clock_input) = 4294967301
   \<and> trace (fst (tick_body windows_config zero_clock_input (initial_emu, far_locals)))
       = [EvLockMutex None, EvUnlockMutex None, EvTriggerInterrupt, EvDelay_usec 5]"
proof -
  have d: "sint (nxt far_locals + 16625 - now zero_clock_input) = 4294967301"
    by (simp add: far_locals_def zero_clock_input_def)
  have t1: "trace (one_tick windows_config classic_started initial_emu)
              = [EvLockMutex None, EvUnlockMutex None, EvTriggerInterrupt]"
    by (simp add: started_tick_trace tick_count_trace initial_emu_def)
  have e: "tenv zero_clock_input = classic_started" by (simp add: zero_clock_input_def)
  have "tick_body windows_config zero_clock_input (initial_emu, far_locals) =
          (log_event (EvDelay_usec (ucast (nxt far_locals + 16625 - now zero_clock_input)))
             (one_tick windows_config (tenv zero_clock_input) initial_emu),
           far_locals\<lparr>nxt := nxt far_locals + 16625, ticks := ticks far_locals + 1\<rparr>)"
    using d by (simp add: tick_body_sleep)
  then show ?thesis
    unfolding e using d t1 by (simp add: log_event_def far_locals_def zero_clock_input_def)
qed

lemma run_ticks_lock: "intflag_lock (run_ticks cfg es s) = intflag_lock s"
  by (induction es arbitrary: s) (simp_all add: one_tick_lock)

lemma tick_body_lock: "intflag_lock (fst (tick_body cfg i sl)) = intflag_lock (fst sl)"
  by (simp add: tick_body_def Let_def log_event_def one_tick_lock)

lemma tick_loop_lock: "intflag_lock (fst (tick_loop cfg is sl)) = intflag_lock (fst sl)"
  by (induction "is" arbitrary: sl) (simp_all add: tick_body_lock)

end
